theory Spec2Isabelle
  imports Complex_Main
begin

section \<open>JavaScript numbers\<close>

text \<open>
  The flight calculator is TypeScript; every \<^verbatim>\<open>number\<close> is an IEEE 754 binary64
  value. A value is NaN, an infinity, a signed zero, or a finite non-zero number, kept as
  the rational it denotes (the flag of \<open>Inf\<close> and \<open>Zero\<close> is the sign bit: \<open>True\<close> is
  negative). Every arithmetic operation computes the exact rational result and rounds it
  to the nearest binary64 value, ties to even, as the language prescribes. A zero result
  is a \<open>Zero\<close>, never \<open>Fin 0\<close>.
\<close>

datatype jsnum = NaN | Inf bool | Zero bool | Fin rat

text \<open>
  The binade of a positive rational \<open>x\<close>: the exponent \<open>e\<close> with \<open>2^e \<le> x < 2^(e+1)\<close>,
  never below \<open>-1022\<close> (the exponent of the subnormal numbers).
\<close>

function binade_up :: "rat \<Rightarrow> int \<Rightarrow> int" where
  "binade_up x e = (if 2 \<le> x then binade_up (x / 2) (e + 1) else e)"
  by pat_completeness auto
termination
proof (relation "measure (\<lambda>(x, e). nat \<lfloor>x\<rfloor>)")
  show "wf (measure (\<lambda>(x::rat, e::int). nat \<lfloor>x\<rfloor>))"
    by simp
next
  fix x :: rat and e :: int
  assume x: "2 \<le> x"
  have "x / 2 \<le> x - 1"
    using x by simp
  then have "\<lfloor>x / 2\<rfloor> \<le> \<lfloor>x - 1\<rfloor>"
    by (rule floor_mono)
  moreover have "2 \<le> \<lfloor>x\<rfloor>"
    using x by (simp add: le_floor_iff)
  ultimately show "((x / 2, e + 1), (x, e)) \<in> measure (\<lambda>(x, e). nat \<lfloor>x\<rfloor>)"
    by simp
qed

function binade_down :: "rat \<Rightarrow> int \<Rightarrow> int" where
  "binade_down x e = (if x < 1 \<and> - 1022 < e then binade_down (2 * x) (e - 1) else e)"
  by pat_completeness auto
termination
  by (relation "measure (\<lambda>(x, e). nat (e + 1022))") auto

definition binade :: "rat \<Rightarrow> int" where
  "binade x = (if 1 \<le> x then binade_up x 0 else binade_down x 0)"

text \<open>The spacing of the binary64 values around \<open>x\<close>: 52 fraction bits.\<close>

definition ulp :: "rat \<Rightarrow> rat" where
  "ulp x = 2 powi (binade x - 52)"

text \<open>Rounding to the nearest integer, a tie to the even one.\<close>

definition rne :: "rat \<Rightarrow> int" where
  "rne t = (let n = \<lfloor>t\<rfloor>; r = t - of_int n in
     if r < 1 / 2 then n
     else if 1 / 2 < r then n + 1
     else if even n then n else n + 1)"

definition round_mag :: "rat \<Rightarrow> rat" where
  "round_mag x = of_int (rne (x / ulp x)) * ulp x"

text \<open>
  The binary64 value of an exact result \<open>x\<close>. An exact zero is \<open>+0\<close>; a non-zero result
  that rounds to zero keeps its sign; a magnitude that rounds to \<open>2^1024\<close> overflows.
\<close>

definition js_round :: "rat \<Rightarrow> jsnum" where
  "js_round x =
     (if x = 0 then Zero False
      else let m = round_mag \<bar>x\<bar> in
        if 2 ^ 1024 \<le> m then Inf (x < 0)
        else if m = 0 then Zero (x < 0)
        else Fin (if x < 0 then - m else m))"

text \<open>A numeric literal of the source denotes the binary64 value nearest to it.\<close>

definition lit :: "rat \<Rightarrow> jsnum" where
  "lit q = js_round q"

fun negative :: "jsnum \<Rightarrow> bool" where
  "negative NaN = False"
| "negative (Inf s) = s"
| "negative (Zero s) = s"
| "negative (Fin q) = (q < 0)"

fun js_neg :: "jsnum \<Rightarrow> jsnum" where
  "js_neg NaN = NaN"
| "js_neg (Inf s) = Inf (\<not> s)"
| "js_neg (Zero s) = Zero (\<not> s)"
| "js_neg (Fin q) = Fin (- q)"

fun js_add :: "jsnum \<Rightarrow> jsnum \<Rightarrow> jsnum" where
  "js_add NaN b = NaN"
| "js_add a NaN = NaN"
| "js_add (Inf s) (Inf t) = (if s = t then Inf s else NaN)"
| "js_add (Inf s) b = Inf s"
| "js_add a (Inf t) = Inf t"
| "js_add (Zero s) (Zero t) = Zero (s \<and> t)"
| "js_add (Zero s) (Fin q) = Fin q"
| "js_add (Fin p) (Zero t) = Fin p"
| "js_add (Fin p) (Fin q) = js_round (p + q)"

definition js_sub :: "jsnum \<Rightarrow> jsnum \<Rightarrow> jsnum" where
  "js_sub a b = js_add a (js_neg b)"

fun js_mul :: "jsnum \<Rightarrow> jsnum \<Rightarrow> jsnum" where
  "js_mul NaN b = NaN"
| "js_mul a NaN = NaN"
| "js_mul (Inf s) (Zero t) = NaN"
| "js_mul (Zero s) (Inf t) = NaN"
| "js_mul (Inf s) b = Inf (s \<noteq> negative b)"
| "js_mul a (Inf t) = Inf (negative a \<noteq> t)"
| "js_mul (Zero s) b = Zero (s \<noteq> negative b)"
| "js_mul a (Zero t) = Zero (negative a \<noteq> t)"
| "js_mul (Fin p) (Fin q) = js_round (p * q)"

fun js_div :: "jsnum \<Rightarrow> jsnum \<Rightarrow> jsnum" where
  "js_div NaN b = NaN"
| "js_div a NaN = NaN"
| "js_div (Inf s) (Inf t) = NaN"
| "js_div (Zero s) (Zero t) = NaN"
| "js_div (Inf s) b = Inf (s \<noteq> negative b)"
| "js_div a (Inf t) = Zero (negative a \<noteq> t)"
| "js_div (Zero s) b = Zero (s \<noteq> negative b)"
| "js_div a (Zero t) = Inf (negative a \<noteq> t)"
| "js_div (Fin p) (Fin q) = js_round (p / q)"

text \<open>
  The rational a finite value denotes: 0 for a zero, and by convention for NaN and the
  infinities, which the statements below exclude where they read a value.
\<close>

fun fin_val :: "jsnum \<Rightarrow> rat" where
  "fin_val (Fin q) = q"
| "fin_val a = 0"

text \<open>The comparison \<^verbatim>\<open><\<close>: false when an operand is NaN; the two zeros are equal.\<close>

fun js_lt :: "jsnum \<Rightarrow> jsnum \<Rightarrow> bool" where
  "js_lt NaN b = False"
| "js_lt a NaN = False"
| "js_lt (Inf s) (Inf t) = (s \<and> \<not> t)"
| "js_lt (Inf s) b = s"
| "js_lt a (Inf t) = (\<not> t)"
| "js_lt a b = (fin_val a < fin_val b)"

fun js_le :: "jsnum \<Rightarrow> jsnum \<Rightarrow> bool" where
  "js_le NaN b = False"
| "js_le a NaN = False"
| "js_le a b = (\<not> js_lt b a)"

text \<open>\<^verbatim>\<open>Math.min\<close>: NaN when an operand is NaN; \<open>-0\<close> counts as less than \<open>+0\<close>.\<close>

definition math_min :: "jsnum \<Rightarrow> jsnum \<Rightarrow> jsnum" where
  "math_min a b =
     (if a = NaN \<or> b = NaN then NaN
      else if js_lt a b then a
      else if js_lt b a then b
      else if a = Zero True then a else b)"

subsection \<open>Notions used to state properties\<close>

text \<open>
  A value is a binary64 number when rounding leaves it unchanged; every result of an
  operation is one, an argument of the calculator is one by its type.
\<close>

fun is_double :: "jsnum \<Rightarrow> bool" where
  "is_double (Fin q) = (js_round q = Fin q)"
| "is_double a = True"

fun finite_num :: "jsnum \<Rightarrow> bool" where
  "finite_num (Fin q) = True"
| "finite_num (Zero s) = True"
| "finite_num a = False"

text \<open>The rational a rounding yields when it neither overflows nor is zero.\<close>

definition round_val :: "rat \<Rightarrow> rat" where
  "round_val x = (if x < 0 then - round_mag (- x) else round_mag x)"

section \<open>The flight calculator\<close>

record FlightNumbers =
  speed :: jsnum
  glide :: jsnum
  turn :: jsnum
  fade :: jsnum

datatype ThrowType = RHBH | RHFH | LHBH | LHFH

datatype ReleaseAngle = Hyzer | Flat | Anhyzer

record FlightPaths =
  hyzer :: string
  flat :: string
  anhyzer :: string

record CanvasConfig =
  width :: jsnum
  height :: jsnum
  startX :: jsnum
  startY :: jsnum
  maxDistance :: jsnum

definition DEFAULT_CONFIG :: CanvasConfig where
  "DEFAULT_CONFIG =
     \<lparr>width = lit 200, height = lit 300, startX = lit 100, startY = lit 280,
      maxDistance = lit 400\<rparr>"

subsection \<open>generatePath: the numbers of one curve\<close>

definition availableHeight :: "CanvasConfig \<Rightarrow> jsnum" where
  "availableHeight config = js_sub (startY config) (lit 20)"

definition pixelsPerFoot :: "CanvasConfig \<Rightarrow> jsnum" where
  "pixelsPerFoot config = js_div (availableHeight config) (maxDistance config)"

definition baseDistance :: "FlightNumbers \<Rightarrow> jsnum" where
  "baseDistance flightNumbers = js_add (lit 30) (js_mul (speed flightNumbers) (lit 28))"

definition glideBonus :: "FlightNumbers \<Rightarrow> jsnum" where
  "glideBonus flightNumbers = js_mul (glide flightNumbers) (lit 5)"

definition estimatedDistance :: "FlightNumbers \<Rightarrow> CanvasConfig \<Rightarrow> jsnum" where
  "estimatedDistance flightNumbers config =
     math_min (js_add (baseDistance flightNumbers) (glideBonus flightNumbers))
       (maxDistance config)"

definition flightLength :: "FlightNumbers \<Rightarrow> CanvasConfig \<Rightarrow> jsnum" where
  "flightLength flightNumbers config =
     js_mul (estimatedDistance flightNumbers config) (pixelsPerFoot config)"

definition effectScale :: "FlightNumbers \<Rightarrow> CanvasConfig \<Rightarrow> jsnum" where
  "effectScale flightNumbers config = js_div (flightLength flightNumbers config) (lit 250)"

text \<open>
  \<^verbatim>\<open>turnEffect\<close> and \<^verbatim>\<open>fadeEffect\<close> are assigned three times: the raw value, the
  release-angle weighting of the \<^verbatim>\<open>switch\<close>, and the negation for a mirrored throw.
\<close>

definition rawTurnEffect :: "FlightNumbers \<Rightarrow> CanvasConfig \<Rightarrow> jsnum" where
  "rawTurnEffect flightNumbers config =
     js_mul (js_mul (turn flightNumbers) (lit 10)) (effectScale flightNumbers config)"

definition rawFadeEffect :: "FlightNumbers \<Rightarrow> CanvasConfig \<Rightarrow> jsnum" where
  "rawFadeEffect flightNumbers config =
     js_mul (js_mul (fade flightNumbers) (lit 15)) (effectScale flightNumbers config)"

fun weightedTurnEffect :: "FlightNumbers \<Rightarrow> ReleaseAngle \<Rightarrow> CanvasConfig \<Rightarrow> jsnum" where
  "weightedTurnEffect flightNumbers Hyzer config =
     js_mul (rawTurnEffect flightNumbers config) (lit (1 / 2))"
| "weightedTurnEffect flightNumbers Anhyzer config =
     js_mul (rawTurnEffect flightNumbers config) (lit (16 / 10))"
| "weightedTurnEffect flightNumbers Flat config = rawTurnEffect flightNumbers config"

fun weightedFadeEffect :: "FlightNumbers \<Rightarrow> ReleaseAngle \<Rightarrow> CanvasConfig \<Rightarrow> jsnum" where
  "weightedFadeEffect flightNumbers Hyzer config =
     js_mul (rawFadeEffect flightNumbers config) (lit (14 / 10))"
| "weightedFadeEffect flightNumbers Anhyzer config =
     js_mul (rawFadeEffect flightNumbers config) (lit (6 / 10))"
| "weightedFadeEffect flightNumbers Flat config = rawFadeEffect flightNumbers config"

definition turnEffect ::
  "FlightNumbers \<Rightarrow> ReleaseAngle \<Rightarrow> bool \<Rightarrow> CanvasConfig \<Rightarrow> jsnum" where
  "turnEffect flightNumbers releaseAngle mirror config =
     (if mirror then js_neg (weightedTurnEffect flightNumbers releaseAngle config)
      else weightedTurnEffect flightNumbers releaseAngle config)"

definition fadeEffect ::
  "FlightNumbers \<Rightarrow> ReleaseAngle \<Rightarrow> bool \<Rightarrow> CanvasConfig \<Rightarrow> jsnum" where
  "fadeEffect flightNumbers releaseAngle mirror config =
     (if mirror then js_neg (weightedFadeEffect flightNumbers releaseAngle config)
      else weightedFadeEffect flightNumbers releaseAngle config)"

definition arcHeight :: "FlightNumbers \<Rightarrow> CanvasConfig \<Rightarrow> jsnum" where
  "arcHeight flightNumbers config =
     js_mul (js_mul (glide flightNumbers) (lit 6)) (effectScale flightNumbers config)"

text \<open>
  The eight numbers the template literal of \<^verbatim>\<open>generatePath\<close> prints, in its order:
  the start point, the two control points and the end point.
\<close>

record PathCoords =
  moveX :: jsnum
  moveY :: jsnum
  cp1X :: jsnum
  cp1Y :: jsnum
  cp2X :: jsnum
  cp2Y :: jsnum
  endX :: jsnum
  endY :: jsnum

definition pathCoords ::
  "FlightNumbers \<Rightarrow> ReleaseAngle \<Rightarrow> bool \<Rightarrow> CanvasConfig \<Rightarrow> PathCoords" where
  "pathCoords flightNumbers releaseAngle mirror config =
     \<lparr>moveX = startX config,
      moveY = startY config,
      cp1X = js_add (startX config) (turnEffect flightNumbers releaseAngle mirror config),
      cp1Y = js_sub (startY config) (js_mul (flightLength flightNumbers config) (lit (4 / 10))),
      cp2X = js_sub
        (js_add (startX config)
           (js_mul (turnEffect flightNumbers releaseAngle mirror config) (lit (1 / 2))))
        (js_mul (fadeEffect flightNumbers releaseAngle mirror config) (lit (3 / 10))),
      cp2Y = js_add (js_sub (startY config) (flightLength flightNumbers config))
        (arcHeight flightNumbers config),
      endX = js_sub (startX config) (fadeEffect flightNumbers releaseAngle mirror config),
      endY = js_sub (startY config) (flightLength flightNumbers config)\<rparr>"

text \<open>
  The template literal. The conversion of a number to its decimal string is the
  language's; it is the parameter \<open>str\<close>.
\<close>

definition svgPath :: "(jsnum \<Rightarrow> string) \<Rightarrow> PathCoords \<Rightarrow> string" where
  "svgPath str c =
     ''M '' @ str (moveX c) @ '' '' @ str (moveY c) @ '' C '' @
     str (cp1X c) @ '' '' @ str (cp1Y c) @ '', '' @
     str (cp2X c) @ '' '' @ str (cp2Y c) @ '', '' @
     str (endX c) @ '' '' @ str (endY c)"

definition generatePath ::
  "(jsnum \<Rightarrow> string) \<Rightarrow> FlightNumbers \<Rightarrow> ReleaseAngle \<Rightarrow> bool \<Rightarrow> CanvasConfig \<Rightarrow> string" where
  "generatePath str flightNumbers releaseAngle mirror config =
     svgPath str (pathCoords flightNumbers releaseAngle mirror config)"

subsection \<open>calculateFlightPath\<close>

text \<open>An omitted \<^verbatim>\<open>config\<close> argument is \<open>None\<close>; the parameter then defaults.\<close>

definition shouldMirror :: "ThrowType \<Rightarrow> bool" where
  "shouldMirror throwType = (throwType = RHFH \<or> throwType = LHBH)"

definition calculateFlightPath ::
  "(jsnum \<Rightarrow> string) \<Rightarrow> FlightNumbers \<Rightarrow> ThrowType \<Rightarrow> CanvasConfig option \<Rightarrow> FlightPaths" where
  "calculateFlightPath str flightNumbers throwType config_arg =
     (let config = (case config_arg of None \<Rightarrow> DEFAULT_CONFIG | Some c \<Rightarrow> c) in
      \<lparr>hyzer = generatePath str flightNumbers Hyzer (shouldMirror throwType) config,
       flat = generatePath str flightNumbers Flat (shouldMirror throwType) config,
       anhyzer = generatePath str flightNumbers Anhyzer (shouldMirror throwType) config\<rparr>)"

subsection \<open>Calls at run time\<close>

text \<open>
  The parameter types are erased at run time: an argument can be \<^verbatim>\<open>null\<close> or
  \<^verbatim>\<open>undefined\<close> instead of an object. The destructuring patterns at the head of
  \<^verbatim>\<open>generatePath\<close> throw a TypeError on such a value, the only way a call can fail. An
  undefined \<^verbatim>\<open>config\<close> takes the default before that; a null one does not. The fields
  of an object are numbers.
\<close>

datatype error = TypeError

datatype 'a argument = Undefined | Null | Object 'a

fun destructure :: "'a argument \<Rightarrow> error + 'a" where
  "destructure Undefined = Inl TypeError"
| "destructure Null = Inl TypeError"
| "destructure (Object v) = Inr v"

definition generatePath_untyped ::
  "(jsnum \<Rightarrow> string) \<Rightarrow> FlightNumbers argument \<Rightarrow> ReleaseAngle \<Rightarrow> bool \<Rightarrow>
     CanvasConfig argument \<Rightarrow> error + string" where
  "generatePath_untyped str flightNumbers releaseAngle mirror config =
     (case destructure flightNumbers of
        Inl e \<Rightarrow> Inl e
      | Inr fn \<Rightarrow>
          (case destructure config of
             Inl e \<Rightarrow> Inl e
           | Inr c \<Rightarrow> Inr (generatePath str fn releaseAngle mirror c)))"

definition calculateFlightPath_untyped ::
  "(jsnum \<Rightarrow> string) \<Rightarrow> FlightNumbers argument \<Rightarrow> ThrowType \<Rightarrow> CanvasConfig argument \<Rightarrow>
     error + FlightPaths" where
  "calculateFlightPath_untyped str flightNumbers throwType config_arg =
     (let config = (case config_arg of Undefined \<Rightarrow> Object DEFAULT_CONFIG | Null \<Rightarrow> Null
                    | Object c \<Rightarrow> Object c) in
      case generatePath_untyped str flightNumbers Hyzer (shouldMirror throwType) config of
        Inl e \<Rightarrow> Inl e
      | Inr h \<Rightarrow>
          (case generatePath_untyped str flightNumbers Flat (shouldMirror throwType) config of
             Inl e \<Rightarrow> Inl e
           | Inr f \<Rightarrow>
               (case generatePath_untyped str flightNumbers Anhyzer (shouldMirror throwType)
                       config of
                  Inl e \<Rightarrow> Inl e
                | Inr a \<Rightarrow> Inr \<lparr>hyzer = h, flat = f, anhyzer = a\<rparr>)))"

text \<open>The flight numbers the repository's tests use (flightCalculator.test.ts).\<close>

definition standardFlightNumbers :: FlightNumbers where
  "standardFlightNumbers = \<lparr>speed = Fin 12, glide = Fin 5, turn = Fin (- 1), fade = Fin 3\<rparr>"

section \<open>Evaluating the arithmetic\<close>

declare binade_up.simps [simp del] binade_down.simps [simp del]

lemma binade_up_step: "2 \<le> x \<Longrightarrow> binade_up x e = binade_up (x / 2) (e + 1)"
  by (subst binade_up.simps) simp

lemma binade_up_stop: "x < 2 \<Longrightarrow> binade_up x e = e"
  by (subst binade_up.simps) simp

lemma binade_down_step:
  "x < 1 \<Longrightarrow> - 1022 < e \<Longrightarrow> binade_down x e = binade_down (2 * x) (e - 1)"
  by (subst binade_down.simps) simp

lemma binade_down_stop: "1 \<le> x \<or> e \<le> - 1022 \<Longrightarrow> binade_down x e = e"
  by (subst binade_down.simps) auto

lemma floor_rat_numeral: "\<lfloor>numeral a / numeral b :: rat\<rfloor> = numeral a div numeral b"
  using floor_divide_of_int_eq [of "numeral a" "numeral b", where ?'a = rat] by simp

lemmas js_eval =
  lit_def js_round_def round_mag_def ulp_def rne_def Let_def power_int_minus_divide
  floor_rat_numeral binade_def binade_up_step binade_up_stop binade_down_step
  binade_down_stop js_sub_def math_min_def

lemmas path_defs =
  availableHeight_def pixelsPerFoot_def baseDistance_def glideBonus_def
  estimatedDistance_def flightLength_def effectScale_def rawTurnEffect_def
  rawFadeEffect_def turnEffect_def fadeEffect_def arcHeight_def pathCoords_def

lemma lit_integers:
  "lit 5 = Fin 5" "lit 6 = Fin 6" "lit 10 = Fin 10" "lit 15 = Fin 15" "lit 20 = Fin 20"
  "lit 28 = Fin 28" "lit 30 = Fin 30" "lit 100 = Fin 100" "lit 200 = Fin 200"
  "lit 250 = Fin 250" "lit 280 = Fin 280" "lit 300 = Fin 300" "lit 400 = Fin 400"
  by (simp_all add: js_eval)

lemma lit_fractions:
  "lit (1 / 2) = Fin (1 / 2)"
  "lit (14 / 10) = Fin (3152519739159347 / 2 ^ 51)"
  "lit (16 / 10) = Fin (3602879701896397 / 2 ^ 51)"
  "lit (6 / 10) = Fin (5404319552844595 / 2 ^ 53)"
  "lit (4 / 10) = Fin (3602879701896397 / 2 ^ 53)"
  "lit (3 / 10) = Fin (5404319552844595 / 2 ^ 54)"
  by (simp_all add: js_eval)

lemma DEFAULT_CONFIG_fields:
  "startX DEFAULT_CONFIG = Fin 100" "startY DEFAULT_CONFIG = Fin 280"
  "maxDistance DEFAULT_CONFIG = Fin 400" "width DEFAULT_CONFIG = Fin 200"
  "height DEFAULT_CONFIG = Fin 300"
  by (simp_all add: DEFAULT_CONFIG_def lit_integers)

text \<open>
  Each descriptor calculateFlightPath returns is the path string of the numbers of
  \<open>pathCoords\<close>; the properties below are stated on those numbers.
\<close>

lemma calculateFlightPath_coords:
  "hyzer (calculateFlightPath str flightNumbers throwType config_arg) =
     svgPath str (pathCoords flightNumbers Hyzer (shouldMirror throwType)
       (case config_arg of None \<Rightarrow> DEFAULT_CONFIG | Some c \<Rightarrow> c))"
  "flat (calculateFlightPath str flightNumbers throwType config_arg) =
     svgPath str (pathCoords flightNumbers Flat (shouldMirror throwType)
       (case config_arg of None \<Rightarrow> DEFAULT_CONFIG | Some c \<Rightarrow> c))"
  "anhyzer (calculateFlightPath str flightNumbers throwType config_arg) =
     svgPath str (pathCoords flightNumbers Anhyzer (shouldMirror throwType)
       (case config_arg of None \<Rightarrow> DEFAULT_CONFIG | Some c \<Rightarrow> c))"
  by (simp_all add: calculateFlightPath_def generatePath_def Let_def)

text \<open>A call with a null or undefined argument throws; an undefined config is allowed.\<close>

lemma untyped_null_throws:
  "calculateFlightPath_untyped str Null throwType config = Inl TypeError"
  "calculateFlightPath_untyped str Undefined throwType config = Inl TypeError"
  "calculateFlightPath_untyped str flightNumbers throwType Null = Inl TypeError"
  by (cases flightNumbers; cases config;
      simp add: calculateFlightPath_untyped_def generatePath_untyped_def)+

text \<open>
  The arithmetic on well-known binary64 facts: 0.1 + 0.2 is 0.30000000000000004,
  49 * (1 / 49) is the number just below 1, a division by zero is an infinity or NaN,
  and \<^verbatim>\<open>Math.min\<close> tells the zeros apart.
\<close>

lemma binary64_examples:
  "js_add (lit (1 / 10)) (lit (2 / 10)) = lit (30000000000000004 / 10 ^ 17)"
  "js_add (lit (1 / 10)) (lit (2 / 10)) \<noteq> lit (3 / 10)"
  "js_mul (Fin 49) (js_div (Fin 1) (Fin 49)) = Fin (1 - 1 / 2 ^ 53)"
  "js_div (Fin 1) (Zero False) = Inf False"
  "js_div (Fin 1) (Zero True) = Inf True"
  "js_div (Zero False) (Zero False) = NaN"
  "js_mul (Zero False) (Inf False) = NaN"
  "js_sub (Inf False) (Inf False) = NaN"
  "math_min (Zero False) (Zero True) = Zero True"
  "js_sub (Fin 5) (Fin 5) = Zero False"
  by (simp_all add: js_eval)

subsection \<open>NaN is absorbing\<close>

lemma js_add_NaN [simp]: "js_add a NaN = NaN"
  by (cases a) simp_all

lemma js_mul_NaN [simp]: "js_mul a NaN = NaN"
  by (cases a) simp_all

lemma js_div_NaN [simp]: "js_div a NaN = NaN"
  by (cases a) simp_all

lemma js_sub_NaN [simp]: "js_sub a NaN = NaN" "js_sub NaN b = NaN"
  by (simp_all add: js_sub_def)

lemma math_min_NaN [simp]: "math_min NaN b = NaN" "math_min a NaN = NaN"
  by (simp_all add: math_min_def)

section \<open>Rounding\<close>

subsection \<open>The binade\<close>

lemma binade_up_bounds:
  "1 \<le> x \<Longrightarrow> e \<le> binade_up x e \<and> 2 powi (binade_up x e - e) \<le> x \<and> x < 2 powi (binade_up x e - e + 1)"
proof (induction x e rule: binade_up.induct)
  case (1 x e)
  show ?case
  proof (cases "2 \<le> x")
    case True
    then have step: "binade_up x e = binade_up (x / 2) (e + 1)"
      by (rule binade_up_step)
    let ?r = "binade_up (x / 2) (e + 1)"
    from True have "1 \<le> x / 2" by simp
    with 1 True have ih: "e + 1 \<le> ?r" "2 powi (?r - (e + 1)) \<le> x / 2"
      "x / 2 < 2 powi (?r - (e + 1) + 1)"
      by simp_all
    have p: "(2::rat) powi (?r - e) = 2 * 2 powi (?r - (e + 1))"
      using power_int_add_1' [of "2::rat" "?r - (e + 1)"] by simp
    have q: "(2::rat) powi (?r - e + 1) = 2 * 2 powi (?r - e)"
      using power_int_add_1' [of "2::rat" "?r - e"] by simp
    show ?thesis
      using ih p q by (simp add: step)
  next
    case False
    then have "binade_up x e = e"
      by (simp add: binade_up_stop)
    with False 1 show ?thesis by simp
  qed
qed

lemma binade_down_bounds:
  "0 < x \<Longrightarrow> x < 2 \<Longrightarrow> - 1022 \<le> e \<Longrightarrow>
   - 1022 \<le> binade_down x e \<and> binade_down x e \<le> e \<and>
   x * 2 powi (e - binade_down x e) < 2 \<and>
   (1 \<le> x * 2 powi (e - binade_down x e) \<or> binade_down x e = - 1022)"
proof (induction x e rule: binade_down.induct)
  case (1 x e)
  show ?case
  proof (cases "x < 1 \<and> - 1022 < e")
    case True
    then have step: "binade_down x e = binade_down (2 * x) (e - 1)"
      by (simp add: binade_down_step)
    let ?r = "binade_down (2 * x) (e - 1)"
    have p: "(2::rat) powi (e - ?r) = 2 * 2 powi (e - 1 - ?r)"
      using power_int_add_1' [of "2::rat" "e - 1 - ?r"] by simp
    from True 1 have ih: "- 1022 \<le> ?r" "?r \<le> e - 1"
      "2 * x * 2 powi (e - 1 - ?r) < 2"
      "1 \<le> 2 * x * 2 powi (e - 1 - ?r) \<or> ?r = - 1022"
      by simp_all
    show ?thesis
      using ih by (simp add: step p mult.assoc mult.left_commute)
  next
    case False
    then have "1 \<le> x \<or> e \<le> - 1022" by auto
    then have "binade_down x e = e"
      by (rule binade_down_stop)
    with False 1 show ?thesis by auto
  qed
qed

lemma binade_bounds:
  assumes "0 < x"
  shows "- 1022 \<le> binade x" and "x < 2 powi (binade x + 1)"
    and "2 powi binade x \<le> x \<or> binade x = - 1022"
proof -
  have "- 1022 \<le> binade x \<and> x < 2 powi (binade x + 1) \<and>
    (2 powi binade x \<le> x \<or> binade x = - 1022)"
  proof (cases "1 \<le> x")
    case True
    then show ?thesis
      using binade_up_bounds [of x 0] by (simp add: binade_def)
  next
    case False
    let ?r = "binade_down x 0"
    from False assms have b: "- 1022 \<le> ?r" "?r \<le> 0" "x * 2 powi (- ?r) < 2"
      "1 \<le> x * 2 powi (- ?r) \<or> ?r = - 1022"
      using binade_down_bounds [of x 0] by simp_all
    have pos: "(0::rat) < 2 powi ?r" by simp
    have inv: "(2::rat) powi (- ?r) = 1 / 2 powi ?r"
      by (simp add: power_int_minus_divide)
    have up: "(2::rat) powi (?r + 1) = 2 * 2 powi ?r"
      using power_int_add_1' [of "2::rat" ?r] by simp
    from b(3) have "x < 2 * 2 powi ?r"
      using pos by (simp add: inv pos_divide_less_eq)
    moreover from b(4) have "2 powi ?r \<le> x \<or> ?r = - 1022"
      using pos by (simp add: inv pos_le_divide_eq)
    ultimately show ?thesis
      using False b(1) by (simp add: binade_def up)
  qed
  then show "- 1022 \<le> binade x" and "x < 2 powi (binade x + 1)"
    and "2 powi binade x \<le> x \<or> binade x = - 1022"
    by simp_all
qed

lemma binade_eqI:
  assumes "0 < x" and "- 1022 \<le> e" and "x < 2 powi (e + 1)"
    and "2 powi e \<le> x \<or> e = - 1022"
  shows "binade x = e"
proof (rule antisym)
  show "binade x \<le> e"
  proof (rule ccontr)
    assume "\<not> binade x \<le> e"
    then have gt: "e + 1 \<le> binade x" by simp
    with assms(2) have "binade x \<noteq> - 1022" by simp
    with binade_bounds(3) [OF assms(1)] have "2 powi binade x \<le> x" by simp
    moreover have "(2::rat) powi (e + 1) \<le> 2 powi binade x"
      using gt by (rule power_int_increasing) simp
    ultimately show False using assms(3) by simp
  qed
  show "e \<le> binade x"
  proof (rule ccontr)
    assume "\<not> e \<le> binade x"
    then have lt: "binade x + 1 \<le> e" by simp
    with binade_bounds(1) [OF assms(1)] have "e \<noteq> - 1022" by simp
    with assms(4) have "2 powi e \<le> x" by simp
    moreover have "(2::rat) powi (binade x + 1) \<le> 2 powi e"
      using lt by (rule power_int_increasing) simp
    ultimately show False using binade_bounds(2) [OF assms(1)] by simp
  qed
qed

lemma binade_mono:
  assumes "0 < x" and "x \<le> y"
  shows "binade x \<le> binade y"
proof (rule ccontr)
  assume "\<not> binade x \<le> binade y"
  then have lt: "binade y + 1 \<le> binade x" by simp
  from assms have y: "0 < y" by simp
  from lt binade_bounds(1) [OF y] have "binade x \<noteq> - 1022" by simp
  with binade_bounds(3) [OF assms(1)] have "2 powi binade x \<le> x" by simp
  moreover have "(2::rat) powi (binade y + 1) \<le> 2 powi binade x"
    using lt by (rule power_int_increasing) simp
  ultimately show False using binade_bounds(2) [OF y] assms(2) by simp
qed

subsection \<open>Rounding to an integer and to the spacing\<close>

lemma rne_cases: "rne t = \<lfloor>t\<rfloor> \<or> rne t = \<lfloor>t\<rfloor> + 1"
  by (simp add: rne_def Let_def)

lemma rne_of_int [simp]: "rne (of_int n) = n"
  by (simp add: rne_def Let_def)

lemma rne_lower: "t - 1 / 2 \<le> of_int (rne t)"
proof (cases "1 / 2 < t - of_int \<lfloor>t\<rfloor>")
  case True
  then have r: "rne t = \<lfloor>t\<rfloor> + 1"
    by (simp add: rne_def Let_def)
  have "t < of_int \<lfloor>t\<rfloor> + 1" by linarith
  then show ?thesis unfolding r by simp
next
  case False
  moreover have "of_int \<lfloor>t\<rfloor> \<le> (of_int (rne t) :: rat)"
    using rne_cases [of t] by auto
  ultimately show ?thesis by linarith
qed

lemma rne_upper: "of_int (rne t) \<le> t + 1 / 2"
proof (cases "t - of_int \<lfloor>t\<rfloor> < 1 / 2")
  case True
  then have r: "rne t = \<lfloor>t\<rfloor>"
    by (simp add: rne_def Let_def)
  have "of_int \<lfloor>t\<rfloor> \<le> t" by linarith
  then show ?thesis unfolding r by linarith
next
  case False
  moreover have "(of_int (rne t) :: rat) \<le> of_int \<lfloor>t\<rfloor> + 1"
    using rne_cases [of t] by auto
  ultimately show ?thesis by linarith
qed

lemma rne_mono:
  assumes "s \<le> t"
  shows "rne s \<le> rne t"
proof (cases "\<lfloor>s\<rfloor> = \<lfloor>t\<rfloor>")
  case True
  with assms have "s - of_int \<lfloor>s\<rfloor> \<le> t - of_int \<lfloor>t\<rfloor>" by simp
  with True show ?thesis
    by (auto simp: rne_def Let_def)
next
  case False
  with assms have "\<lfloor>s\<rfloor> + 1 \<le> \<lfloor>t\<rfloor>"
    using floor_mono [of s t] by simp
  moreover have "rne s \<le> \<lfloor>s\<rfloor> + 1" "\<lfloor>t\<rfloor> \<le> rne t"
    using rne_cases [of s] rne_cases [of t] by auto
  ultimately show ?thesis by simp
qed

lemma rne_ge_int: "of_int n \<le> t \<Longrightarrow> n \<le> rne t"
  using rne_mono [of "of_int n" t] by simp

lemma rne_le_int: "t \<le> of_int n \<Longrightarrow> rne t \<le> n"
  using rne_mono [of t "of_int n"] by simp

lemma ulp_pos [simp]: "0 < ulp x" "0 \<le> ulp x" "ulp x \<noteq> 0"
  by (simp_all add: ulp_def)

lemma ulp_binade: "ulp x * 2 ^ 52 = 2 powi binade x"
proof -
  have "(2::rat) powi (binade x - 52 + 52) = 2 powi (binade x - 52) * 2 powi 52"
    by (rule power_int_add) simp
  then show ?thesis by (simp add: ulp_def)
qed

lemma ulp_binade_up: "ulp x * 2 ^ 53 = 2 powi (binade x + 1)"
proof -
  have "(2::rat) powi (binade x - 52 + 53) = 2 powi (binade x - 52) * 2 powi 53"
    by (rule power_int_add) simp
  moreover have "binade x - 52 + 53 = binade x + 1" by simp
  ultimately show ?thesis by (simp add: ulp_def)
qed

lemma round_mag_nonneg: "0 \<le> x \<Longrightarrow> 0 \<le> round_mag x"
proof -
  assume "0 \<le> x"
  then have "(of_int 0 :: rat) \<le> x / ulp x" by simp
  then have "0 \<le> rne (x / ulp x)" by (rule rne_ge_int)
  then show ?thesis by (simp add: round_mag_def)
qed

lemma round_mag_upper:
  assumes "0 < x"
  shows "round_mag x \<le> 2 powi (binade x + 1)"
proof -
  have "x < ulp x * 2 ^ 53"
    using binade_bounds(2) [OF assms] ulp_binade_up [of x] by simp
  then have "x / ulp x \<le> of_int (2 ^ 53)"
    by (simp add: pos_divide_le_eq mult.commute)
  then have "rne (x / ulp x) \<le> 2 ^ 53" by (rule rne_le_int)
  then have "(of_int (rne (x / ulp x)) :: rat) \<le> of_int (2 ^ 53)"
    by (simp only: of_int_le_iff)
  then have m: "(of_int (rne (x / ulp x)) :: rat) \<le> 2 ^ 53"
    by simp
  have "round_mag x = of_int (rne (x / ulp x)) * ulp x"
    by (simp only: round_mag_def)
  also have "\<dots> \<le> 2 ^ 53 * ulp x"
    using m by (intro mult_right_mono) simp_all
  also have "\<dots> = 2 powi (binade x + 1)"
    using ulp_binade_up [of x] by (simp only: mult.commute)
  finally show ?thesis .
qed

lemma round_mag_lower:
  assumes "0 < x" and "2 powi binade x \<le> x"
  shows "2 powi binade x \<le> round_mag x"
proof -
  have "ulp x * 2 ^ 52 \<le> x"
    using assms(2) ulp_binade [of x] by simp
  then have "of_int (2 ^ 52) \<le> x / ulp x"
    by (simp add: pos_le_divide_eq mult.commute)
  then have "2 ^ 52 \<le> rne (x / ulp x)" by (rule rne_ge_int)
  then have "(of_int (2 ^ 52) :: rat) \<le> of_int (rne (x / ulp x))"
    by (simp only: of_int_le_iff)
  then have m: "(2 ^ 52 :: rat) \<le> of_int (rne (x / ulp x))"
    by simp
  have "2 powi binade x = 2 ^ 52 * ulp x"
    using ulp_binade [of x] by (simp only: mult.commute)
  also have "\<dots> \<le> of_int (rne (x / ulp x)) * ulp x"
    using m by (intro mult_right_mono) simp_all
  also have "\<dots> = round_mag x"
    by (simp only: round_mag_def)
  finally show ?thesis .
qed

lemma round_mag_mono:
  assumes "0 < x" and "x \<le> y"
  shows "round_mag x \<le> round_mag y"
proof -
  from assms have y: "0 < y" by simp
  have le: "binade x \<le> binade y"
    using assms by (rule binade_mono)
  show ?thesis
  proof (cases "binade x = binade y")
    case True
    then have u: "ulp x = ulp y" by (simp add: ulp_def)
    have "x / ulp y \<le> y / ulp y"
      using assms(2) by (simp add: divide_right_mono)
    then have "rne (x / ulp y) \<le> rne (y / ulp y)" by (rule rne_mono)
    then have "(of_int (rne (x / ulp y)) :: rat) \<le> of_int (rne (y / ulp y))"
      by (simp only: of_int_le_iff)
    then show ?thesis
      by (simp add: round_mag_def u mult_right_mono)
  next
    case False
    with le have lt: "binade x + 1 \<le> binade y" by simp
    with binade_bounds(1) [OF assms(1)] have "binade y \<noteq> - 1022" by simp
    with binade_bounds(3) [OF y] have "2 powi binade y \<le> y" by simp
    then have "2 powi binade y \<le> round_mag y"
      using y by (simp add: round_mag_lower)
    moreover have "(2::rat) powi (binade x + 1) \<le> 2 powi binade y"
      using lt by (rule power_int_increasing) simp
    moreover note round_mag_upper [OF assms(1)]
    ultimately show ?thesis by simp
  qed
qed

lemma round_mag_error:
  "\<bar>round_mag x - x\<bar> \<le> ulp x / 2"
proof -
  let ?t = "x / ulp x"
  have x: "x = ?t * ulp x" by simp
  have e: "\<bar>of_int (rne ?t) - ?t\<bar> \<le> 1 / 2"
    using rne_lower [of ?t] rne_upper [of ?t] by linarith
  have "round_mag x - x = of_int (rne ?t) * ulp x - ?t * ulp x"
    by (simp add: round_mag_def)
  also have "\<dots> = (of_int (rne ?t) - ?t) * ulp x"
    by (simp only: left_diff_distrib)
  finally have "\<bar>round_mag x - x\<bar> = \<bar>of_int (rne ?t) - ?t\<bar> * ulp x"
    by (simp add: abs_mult)
  also have "\<dots> \<le> 1 / 2 * ulp x"
    using e by (intro mult_right_mono) simp_all
  finally show ?thesis by simp
qed

subsection \<open>Rounding to a binary64 value\<close>

lemma round_mag_idem:
  assumes "0 < x" and "0 < round_mag x"
  shows "round_mag (round_mag x) = round_mag x"
proof -
  let ?e = "binade x" and ?u = "ulp x" and ?n = "rne (x / ulp x)"
  let ?y = "round_mag x"
  have y: "?y = of_int ?n * ?u" by (simp only: round_mag_def)
  have up: "?y \<le> 2 powi (?e + 1)" using assms(1) by (rule round_mag_upper)
  show ?thesis
  proof (cases "?y = 2 powi (?e + 1)")
    case True
    have e2: "(2::rat) powi (?e + 1 + 1) = 2 * 2 powi (?e + 1)"
      using power_int_add_1' [of "2::rat" "?e + 1"] by simp
    have b: "binade ?y = ?e + 1"
    proof (rule binade_eqI)
      show "0 < ?y" by (rule assms(2))
      show "- 1022 \<le> ?e + 1" using binade_bounds(1) [OF assms(1)] by simp
      show "?y < 2 powi (?e + 1 + 1)" unfolding e2 True by simp
      show "2 powi (?e + 1) \<le> ?y \<or> ?e + 1 = - 1022" using True by simp
    qed
    have h: "ulp ?y * 2 ^ 52 = ?y"
      using ulp_binade [of ?y] b True by simp
    have "?y / ulp ?y = ulp ?y * 2 ^ 52 / ulp ?y"
      by (simp only: h)
    also have "\<dots> = of_int (2 ^ 52)"
      by simp
    finally have "rne (?y / ulp ?y) = 2 ^ 52"
      by (simp only: rne_of_int)
    then have "round_mag ?y = of_int (2 ^ 52) * ulp ?y"
      by (simp only: round_mag_def [of ?y])
    also have "\<dots> = ulp ?y * 2 ^ 52"
      by simp
    finally show ?thesis by (simp only: h)
  next
    case False
    with up have lt: "?y < 2 powi (?e + 1)" by simp
    have b: "binade ?y = ?e"
    proof (rule binade_eqI)
      show "0 < ?y" by (rule assms(2))
      show "- 1022 \<le> ?e" using binade_bounds(1) [OF assms(1)] .
      show "?y < 2 powi (?e + 1)" by (rule lt)
      show "2 powi ?e \<le> ?y \<or> ?e = - 1022"
        using binade_bounds(3) [OF assms(1)] round_mag_lower [OF assms(1)] by auto
    qed
    then have u: "ulp ?y = ?u" by (simp add: ulp_def)
    have "?y / ?u = of_int ?n" unfolding y by simp
    then have "rne (?y / ulp ?y) = ?n"
      by (simp only: u rne_of_int)
    then have "round_mag ?y = of_int ?n * ?u"
      by (simp add: round_mag_def [of ?y] u)
    then show ?thesis by (simp only: y)
  qed
qed

lemma js_round_zero [simp]: "js_round 0 = Zero False"
  by (simp add: js_round_def)

lemma js_round_pos:
  "0 < x \<Longrightarrow> js_round x =
     (if 2 ^ 1024 \<le> round_mag x then Inf False
      else if round_mag x = 0 then Zero False else Fin (round_mag x))"
  by (simp add: js_round_def Let_def)

lemma js_round_neg:
  "x < 0 \<Longrightarrow> js_round x =
     (if 2 ^ 1024 \<le> round_mag (- x) then Inf True
      else if round_mag (- x) = 0 then Zero True else Fin (- round_mag (- x)))"
  by (simp add: js_round_def Let_def)

lemma js_round_not_NaN [simp]: "js_round x \<noteq> NaN"
  by (simp add: js_round_def Let_def)

lemma js_round_uminus: "x \<noteq> 0 \<Longrightarrow> js_round (- x) = js_neg (js_round x)"
  by (cases "0 < x") (simp_all add: js_round_pos js_round_neg)

lemma js_round_mono:
  assumes "x \<le> y"
  shows "js_le (js_round x) (js_round y)"
proof -
  consider "0 < x" | "y < 0" | "x \<le> 0" "0 \<le> y" using assms by linarith
  then show ?thesis
  proof cases
    case 1
    with assms have y: "0 < y" by simp
    have "round_mag x \<le> round_mag y" using 1 assms by (rule round_mag_mono)
    moreover have "0 \<le> round_mag x" using 1 by (simp add: round_mag_nonneg)
    ultimately show ?thesis
      using 1 y by (auto simp: js_round_pos)
  next
    case 2
    with assms have x: "x < 0" by simp
    have "round_mag (- y) \<le> round_mag (- x)"
      using 2 assms by (intro round_mag_mono) simp_all
    moreover have "0 \<le> round_mag (- y)" using 2 by (simp add: round_mag_nonneg)
    ultimately show ?thesis
      using 2 x by (auto simp: js_round_neg)
  next
    case 3
    have "0 \<le> round_mag (- x)" "0 \<le> round_mag y"
      using 3 by (simp_all add: round_mag_nonneg)
    then show ?thesis
      using 3 by (cases "x = 0"; cases "y = 0") (auto simp: js_round_pos js_round_neg)
  qed
qed

lemma js_round_idem:
  assumes "js_round x = Fin q"
  shows "js_round q = Fin q"
proof -
  from assms have x0: "x \<noteq> 0" by auto
  show ?thesis
  proof (cases "0 < x")
    case True
    with assms have q: "q = round_mag x" "round_mag x \<noteq> 0" "\<not> 2 ^ 1024 \<le> round_mag x"
      by (auto simp: js_round_pos split: if_splits)
    with True have pos: "0 < round_mag x"
      using round_mag_nonneg [of x] by simp
    then have "round_mag (round_mag x) = round_mag x"
      using True by (simp add: round_mag_idem)
    with pos q show ?thesis by (simp add: js_round_pos)
  next
    case False
    with x0 have neg: "x < 0" by simp
    with assms have q: "q = - round_mag (- x)" "round_mag (- x) \<noteq> 0"
      "\<not> 2 ^ 1024 \<le> round_mag (- x)"
      by (auto simp: js_round_neg split: if_splits)
    with neg have pos: "0 < round_mag (- x)"
      using round_mag_nonneg [of "- x"] by simp
    then have "round_mag (round_mag (- x)) = round_mag (- x)"
      using neg by (simp add: round_mag_idem)
    with pos q show ?thesis by (simp add: js_round_neg)
  qed
qed

section \<open>Order and monotonicity of the operations\<close>

lemma js_round_le_zero: "x \<le> 0 \<Longrightarrow> js_le (js_round x) (Zero t)"
  using js_round_mono [of x 0] by (cases "js_round x") auto

lemma js_round_ge_zero: "0 \<le> x \<Longrightarrow> js_le (Zero t) (js_round x)"
  using js_round_mono [of 0 x] by (cases "js_round x") auto

lemma js_round_le_Inf [simp]: "js_le (js_round x) (Inf False)"
  by (cases "js_round x") auto

lemma js_round_ge_Inf [simp]: "js_le (Inf True) (js_round x)"
  by (cases "js_round x") auto

lemma js_round_Fin_pos: "js_round x = Fin q \<Longrightarrow> 0 < x \<Longrightarrow> 0 < q"
  using round_mag_nonneg [of x] by (auto simp: js_round_pos split: if_splits)

lemma js_le_refl: "a \<noteq> NaN \<Longrightarrow> js_le a a"
  by (cases a) auto

lemma js_le_not_NaN: "js_le a b \<Longrightarrow> a \<noteq> NaN \<and> b \<noteq> NaN"
  by (cases a; cases b) auto

lemma js_lt_NaN: "\<not> js_lt a NaN" "\<not> js_lt NaN b"
  by (cases a) simp_all

lemma js_le_iff: "a \<noteq> NaN \<Longrightarrow> b \<noteq> NaN \<Longrightarrow> js_le a b \<longleftrightarrow> \<not> js_lt b a"
  by (cases a; cases b) simp_all

lemma js_lt_asym: "js_lt a b \<Longrightarrow> \<not> js_lt b a"
  by (cases a; cases b) auto

lemma math_min_right: "js_lt b a \<Longrightarrow> math_min a b = b"
  by (cases a; cases b) (auto simp: math_min_def)

lemma js_le_Inf_left [simp]:
  "js_le (Inf True) b \<longleftrightarrow> b \<noteq> NaN"
  "js_le (Inf False) b \<longleftrightarrow> b = Inf False"
  by (cases b; simp)+

lemma js_le_Inf_right [simp]:
  "js_le a (Inf False) \<longleftrightarrow> a \<noteq> NaN"
  "js_le a (Inf True) \<longleftrightarrow> a = Inf True"
  by (cases a; simp)+

lemma js_mul_mono_pos:
  assumes "js_le a b" and "0 < c"
  shows "js_le (js_mul a (Fin c)) (js_mul b (Fin c))"
proof -
  have r: "js_le (js_round (p * c)) (js_round (q * c))" if "p \<le> q" for p q
    using that assms(2) by (intro js_round_mono) (simp add: mult_right_mono)
  have z1: "js_le (js_round (p * c)) (Zero t)" if "p \<le> 0" for p t
    using that assms(2) by (intro js_round_le_zero) (simp add: mult_le_0_iff)
  have z2: "js_le (Zero t) (js_round (p * c))" if "0 \<le> p" for p t
    using that assms(2) by (intro js_round_ge_zero) simp
  show ?thesis
    using assms r z1 z2 by (cases a; cases b) (auto simp: not_less)
qed

lemma is_double_round [simp]: "is_double (js_round x)"
  by (cases "js_round x") (simp_all add: js_round_idem)

lemma is_double_mul [simp]: "is_double (js_mul a b)"
  by (cases a; cases b) simp_all

lemma is_double_div [simp]: "is_double (js_div a b)"
  by (cases a; cases b) simp_all

lemma is_double_Fin_nonzero: "is_double (Fin q) \<Longrightarrow> q \<noteq> 0"
  by auto

lemma is_double_neg: "is_double a \<Longrightarrow> is_double (js_neg a)"
proof (cases a)
  case (Fin q)
  assume "is_double a"
  with Fin have r: "js_round q = Fin q" by simp
  then have "q \<noteq> 0" by auto
  then have "js_round (- q) = js_neg (js_round q)" by (rule js_round_uminus)
  with r Fin show ?thesis by simp
qed simp_all

lemma is_double_add: "is_double a \<Longrightarrow> is_double b \<Longrightarrow> is_double (js_add a b)"
  by (cases a; cases b) simp_all

lemma is_double_sub: "is_double a \<Longrightarrow> is_double b \<Longrightarrow> is_double (js_sub a b)"
  by (simp add: js_sub_def is_double_add is_double_neg)

lemma js_add_const_mono:
  assumes "js_le a b" and "js_round c = Fin c"
  shows "js_le (js_add (Fin c) a) (js_add (Fin c) b)"
proof -
  have r: "js_le (js_round (c + p)) (js_round (c + q))" if "p \<le> q" for p q
    using that by (intro js_round_mono) simp
  have z1: "js_le (js_round (c + p)) (Fin c)" if "p \<le> 0" for p
    using that js_round_mono [of "c + p" c] by (simp add: assms(2))
  have z2: "js_le (Fin c) (js_round (c + p))" if "0 \<le> p" for p
    using that js_round_mono [of c "c + p"] by (simp add: assms(2))
  show ?thesis
    using assms(1) r z1 z2 by (cases a; cases b) (auto simp: not_less)
qed

lemma js_add_mono_left:
  assumes "js_le a b" and "is_double c"
    and "js_add a c \<noteq> NaN" and "js_add b c \<noteq> NaN"
  shows "js_le (js_add a c) (js_add b c)"
proof (cases c)
  case NaN
  with assms(3) show ?thesis by simp
next
  case (Inf s)
  with assms show ?thesis
    by (cases a; cases b) (auto split: if_splits)
next
  case (Zero s)
  with assms show ?thesis
    by (cases a; cases b) (auto simp: not_less)
next
  case (Fin r)
  with assms(2) have c: "js_round r = Fin r" by simp
  have m: "js_le (js_round (p + r)) (js_round (q + r))" if "p \<le> q" for p q
    using that by (intro js_round_mono) simp
  have z1: "js_le (js_round (p + r)) (Fin r)" if "p \<le> 0" for p
    using that js_round_mono [of "p + r" r] by (simp add: c)
  have z2: "js_le (Fin r) (js_round (p + r))" if "0 \<le> p" for p
    using that js_round_mono [of r "p + r"] by (simp add: c)
  show ?thesis
    using assms(1) Fin m z1 z2 by (cases a; cases b) (auto simp: not_less)
qed

lemma math_min_not_NaN: "math_min a b \<noteq> NaN \<Longrightarrow> a \<noteq> NaN \<and> b \<noteq> NaN"
  by (auto simp: math_min_def)

lemma math_min_mono:
  assumes "js_le a b" and "c \<noteq> NaN"
  shows "js_le (math_min a c) (math_min b c)"
  using assms by (cases a; cases b; cases c) (auto simp: math_min_def)

lemma js_mul_mono_nonneg:
  assumes "js_le a b" and "js_le (Zero False) c"
    and "js_mul a c \<noteq> NaN" and "js_mul b c \<noteq> NaN"
  shows "js_le (js_mul a c) (js_mul b c)"
proof (cases c)
  case NaN
  with assms(2) show ?thesis by simp
next
  case (Inf s)
  with assms show ?thesis
    by (cases a; cases b) (auto simp: not_less)
next
  case (Zero s)
  with assms show ?thesis
    by (cases a; cases b) auto
next
  case (Fin r)
  with assms(2) have r: "0 \<le> r" by simp
  have m: "js_le (js_round (p * r)) (js_round (q * r))" if "p \<le> q" for p q
    using that r by (intro js_round_mono) (simp add: mult_right_mono)
  have z1: "js_le (js_round (p * r)) (Zero t)" if "p \<le> 0" for p t
    using that r by (intro js_round_le_zero) (simp add: mult_le_0_iff)
  have z2: "js_le (Zero t) (js_round (p * r))" if "0 \<le> p" for p t
    using that r by (intro js_round_ge_zero) simp
  show ?thesis
    using assms(1) Fin m z1 z2 r by (cases a; cases b) (auto simp: not_less)
qed

lemma js_le_add_one:
  assumes "is_double s" and "s \<noteq> NaN"
  shows "js_le s (js_add s (Fin 1))"
proof (cases s)
  case (Fin q)
  with assms(1) have "js_round q = Fin q" by simp
  then show ?thesis
    using js_round_mono [of q "q + 1"] Fin by simp
qed (use assms in simp_all)

section \<open>Sign symmetry and the fields of a curve\<close>

lemma pathCoords_fields:
  "moveX (pathCoords fn ra m cfg) = startX cfg"
  "moveY (pathCoords fn ra m cfg) = startY cfg"
  "cp1X (pathCoords fn ra m cfg) = js_add (startX cfg) (turnEffect fn ra m cfg)"
  "cp1Y (pathCoords fn ra m cfg) =
     js_sub (startY cfg) (js_mul (flightLength fn cfg) (lit (4 / 10)))"
  "cp2X (pathCoords fn ra m cfg) =
     js_sub (js_add (startX cfg) (js_mul (turnEffect fn ra m cfg) (lit (1 / 2))))
       (js_mul (fadeEffect fn ra m cfg) (lit (3 / 10)))"
  "cp2Y (pathCoords fn ra m cfg) =
     js_add (js_sub (startY cfg) (flightLength fn cfg)) (arcHeight fn cfg)"
  "endX (pathCoords fn ra m cfg) = js_sub (startX cfg) (fadeEffect fn ra m cfg)"
  "endY (pathCoords fn ra m cfg) = js_sub (startY cfg) (flightLength fn cfg)"
  by (simp_all add: pathCoords_def)

lemmas stage_eval = DEFAULT_CONFIG_fields lit_integers lit_fractions js_eval

lemma js_neg_neg [simp]: "js_neg (js_neg a) = a"
  by (cases a) simp_all

lemma js_round_not_Fin_zero [simp]: "js_round x \<noteq> Fin 0"
  using round_mag_nonneg [of "\<bar>x\<bar>"] by (auto simp: js_round_def Let_def)

lemma js_mul_not_Fin_zero [simp]: "js_mul a b \<noteq> Fin 0"
  by (cases a; cases b) simp_all

lemma js_mul_neg_left:
  assumes "a \<noteq> Fin 0" and "c \<noteq> 0"
  shows "js_mul (js_neg a) (Fin c) = js_neg (js_mul a (Fin c))"
proof (cases a)
  case (Fin p)
  with assms have "p * c \<noteq> 0" by simp
  then have "js_round (- (p * c)) = js_neg (js_round (p * c))"
    by (rule js_round_uminus)
  with Fin show ?thesis by simp
qed (use assms in auto)

lemma weighted_not_Fin_zero [simp]:
  "weightedTurnEffect fn ra cfg \<noteq> Fin 0" "weightedFadeEffect fn ra cfg \<noteq> Fin 0"
  by (cases ra; simp add: rawTurnEffect_def rawFadeEffect_def)+

section \<open>Values of finite results\<close>

lemma round_mag_zero [simp]: "round_mag 0 = 0"
  using rne_of_int [of 0] by (simp add: round_mag_def)

lemma round_val_zero [simp]: "round_val 0 = 0"
  by (simp add: round_val_def)

lemma fin_val_round: "finite_num (js_round x) \<Longrightarrow> fin_val (js_round x) = round_val x"
  by (cases "x = 0") (auto simp: js_round_def Let_def round_val_def split: if_splits)

lemma round_val_mono:
  assumes "x \<le> y"
  shows "round_val x \<le> round_val y"
proof -
  consider "0 < x" | "y < 0" | "x \<le> 0" "0 \<le> y" using assms by linarith
  then show ?thesis
  proof cases
    case 1
    with assms show ?thesis
      by (simp add: round_val_def round_mag_mono)
  next
    case 2
    with assms have "round_mag (- y) \<le> round_mag (- x)"
      by (intro round_mag_mono) simp_all
    with 2 assms show ?thesis
      by (simp add: round_val_def)
  next
    case 3
    have "0 \<le> round_mag (- x)" "0 \<le> round_mag y"
      using 3 by (simp_all add: round_mag_nonneg)
    with 3 show ?thesis
      by (auto simp: round_val_def)
  qed
qed

lemma round_val_double:
  assumes "is_double a" and "finite_num a"
  shows "round_val (fin_val a) = fin_val a"
proof (cases a)
  case (Fin q)
  with assms(1) have "js_round q = Fin q" by simp
  then have "fin_val (js_round q) = q" "finite_num (js_round q)" by simp_all
  then show ?thesis
    using fin_val_round [of q] Fin by simp
qed (use assms in simp_all)

lemma fin_val_neg [simp]: "fin_val (js_neg a) = - fin_val a"
  by (cases a) simp_all

lemma finite_num_neg [simp]: "finite_num (js_neg a) = finite_num a"
  by (cases a) simp_all

lemma fin_val_add:
  assumes "is_double a" and "is_double b" and "finite_num (js_add a b)"
  shows "finite_num a \<and> finite_num b \<and>
         fin_val (js_add a b) = round_val (fin_val a + fin_val b)"
proof (cases a; cases b)
  fix p q
  assume "a = Fin p" "b = Fin q"
  with assms(3) show ?thesis by (simp add: fin_val_round)
next
  fix s q
  assume "a = Zero s" "b = Fin q"
  with assms(2) show ?thesis
    using round_val_double [of b] by simp
next
  fix p t
  assume "a = Fin p" "b = Zero t"
  with assms(1) show ?thesis
    using round_val_double [of a] by simp
qed (use assms(3) in \<open>auto split: if_splits\<close>)

lemma fin_val_mul_const:
  assumes "finite_num (js_mul a (Fin c))"
  shows "finite_num a \<and> fin_val (js_mul a (Fin c)) = round_val (fin_val a * c)"
  using assms by (cases a) (simp_all add: fin_val_round)

lemma offsets_ordered:
  assumes "round_val s = s" and "(0 \<le> a \<and> a \<le> b) \<or> (b \<le> a \<and> a \<le> 0)"
  shows "\<bar>round_val (s + a) - s\<bar> \<le> \<bar>round_val (s + b) - s\<bar>"
proof -
  from assms(2) show ?thesis
  proof
    assume "0 \<le> a \<and> a \<le> b"
    then have "round_val s \<le> round_val (s + a)" "round_val (s + a) \<le> round_val (s + b)"
      by (simp_all add: round_val_mono)
    then show ?thesis unfolding assms(1) by linarith
  next
    assume "b \<le> a \<and> a \<le> 0"
    then have "round_val (s + a) \<le> round_val s" "round_val (s + b) \<le> round_val (s + a)"
      by (simp_all add: round_val_mono)
    then show ?thesis unfolding assms(1) by linarith
  qed
qed

lemma weighted_fade_ordered:
  assumes "f = round_val f"
  shows "(0 \<le> round_val (f * (5404319552844595 / 2 ^ 53)) \<and>
          round_val (f * (5404319552844595 / 2 ^ 53)) \<le> f \<and>
          f \<le> round_val (f * (3152519739159347 / 2 ^ 51))) \<or>
         (round_val (f * (3152519739159347 / 2 ^ 51)) \<le> f \<and>
          f \<le> round_val (f * (5404319552844595 / 2 ^ 53)) \<and>
          round_val (f * (5404319552844595 / 2 ^ 53)) \<le> 0)"
proof (cases "0 \<le> f")
  case True
  then have "0 \<le> f * (5404319552844595 / 2 ^ 53)"
    "f * (5404319552844595 / 2 ^ 53) \<le> f" "f \<le> f * (3152519739159347 / 2 ^ 51)"
    by simp_all
  then show ?thesis
    using round_val_mono [of 0 "f * (5404319552844595 / 2 ^ 53)"]
      round_val_mono [of "f * (5404319552844595 / 2 ^ 53)" f]
      round_val_mono [of f "f * (3152519739159347 / 2 ^ 51)"] assms
    by simp
next
  case False
  then have "f * (5404319552844595 / 2 ^ 53) \<le> 0"
    "f \<le> f * (5404319552844595 / 2 ^ 53)" "f * (3152519739159347 / 2 ^ 51) \<le> f"
    by (simp_all add: mult_le_0_iff)
  then show ?thesis
    using round_val_mono [of "f * (5404319552844595 / 2 ^ 53)" 0]
      round_val_mono [of f "f * (5404319552844595 / 2 ^ 53)"]
      round_val_mono [of "f * (3152519739159347 / 2 ^ 51)" f] assms
    by simp
qed

lemma lit_fractions_reduced:
  "lit (7 / 5) = Fin (3152519739159347 / 2 ^ 51)"
  "lit (8 / 5) = Fin (3602879701896397 / 2 ^ 51)"
  "lit (3 / 5) = Fin (5404319552844595 / 2 ^ 53)"
  "lit (2 / 5) = Fin (3602879701896397 / 2 ^ 53)"
  using lit_fractions by simp_all

lemma is_double_weightedFade [simp]: "is_double (weightedFadeEffect fn ra cfg)"
  by (cases ra) (simp_all add: rawFadeEffect_def)

section \<open>Rounding errors\<close>

lemma round_mag_rel_error:
  assumes "0 \<le> y"
  shows "\<bar>round_mag y - y\<bar> \<le> round_mag y / 2 ^ 53 + 1 / 2 ^ 1075"
proof (cases "y = 0")
  case True
  then show ?thesis by simp
next
  case False
  with assms have y: "0 < y" by simp
  have err: "\<bar>round_mag y - y\<bar> \<le> ulp y / 2" by (rule round_mag_error)
  have nn: "0 \<le> round_mag y" using assms by (rule round_mag_nonneg)
  from binade_bounds(3) [OF y] show ?thesis
  proof
    assume low: "2 powi binade y \<le> y"
    then have "2 powi binade y \<le> round_mag y"
      using y by (simp add: round_mag_lower)
    then have "ulp y * 2 ^ 52 \<le> round_mag y"
      by (simp only: ulp_binade)
    then have "ulp y / 2 \<le> round_mag y / 2 ^ 53"
      by (simp add: field_simps)
    moreover have "(0::rat) \<le> 1 / 2 ^ 1075" by simp
    ultimately show ?thesis using err by linarith
  next
    assume "binade y = - 1022"
    then have "ulp y = 1 / 2 ^ 1074"
      by (simp add: ulp_def power_int_minus_divide)
    then have "ulp y / 2 = 1 / 2 ^ 1075" by simp
    moreover have "0 \<le> round_mag y / 2 ^ 53" using nn by simp
    ultimately show ?thesis using err by linarith
  qed
qed

lemma round_val_rel_error:
  "\<bar>round_val x - x\<bar> \<le> \<bar>round_val x\<bar> / 2 ^ 53 + 1 / 2 ^ 1075"
proof (cases "x < 0")
  case True
  then have "0 \<le> - x" by simp
  from round_mag_rel_error [OF this] round_mag_nonneg [OF this] True
  show ?thesis by (simp add: round_val_def abs_minus_commute)
next
  case False
  then have "0 \<le> x" by simp
  from round_mag_rel_error [OF this] round_mag_nonneg [OF this] False
  show ?thesis by (simp add: round_val_def)
qed

lemma fin_val_mul_left:
  assumes "finite_num (js_mul (Fin m) b)" and "m \<noteq> 0"
  shows "finite_num b \<and> fin_val (js_mul (Fin m) b) = round_val (m * fin_val b)"
  using assms by (cases b) (simp_all add: fin_val_round)

lemma fin_val_div_const:
  assumes "finite_num a" and "finite_num (js_div a (Fin m))"
  shows "fin_val (js_div a (Fin m)) = round_val (fin_val a / m)"
  using assms by (cases a) (simp_all add: fin_val_round)

lemma scaled_back_error:
  fixes a m :: rat
  assumes m: "m \<noteq> 0"
  defines "p \<equiv> round_val (a / m)"
  defines "l \<equiv> round_val (m * p)"
  shows "\<bar>l - a\<bar> \<le> \<bar>l\<bar> / 2 ^ 51 + (2 + \<bar>m\<bar>) / 2 ^ 1075"
proof -
  define eps :: rat where "eps = 1 / 2 ^ 53"
  define eta :: rat where "eta = 1 / 2 ^ 1075"
  have eps: "0 \<le> eps" "eps \<le> 1" and eta: "0 \<le> eta"
    by (simp_all add: eps_def eta_def)
  have e1: "\<bar>l - m * p\<bar> \<le> \<bar>l\<bar> * eps + eta"
    using round_val_rel_error [of "m * p"] by (simp add: l_def eps_def eta_def)
  have e2: "\<bar>p - a / m\<bar> \<le> \<bar>p\<bar> * eps + eta"
    using round_val_rel_error [of "a / m"] by (simp add: p_def eps_def eta_def)
  have "m * p - a = m * (p - a / m)"
    using m by (simp add: right_diff_distrib)
  then have "\<bar>m * p - a\<bar> = \<bar>m\<bar> * \<bar>p - a / m\<bar>"
    by (simp add: abs_mult)
  also have "\<dots> \<le> \<bar>m\<bar> * (\<bar>p\<bar> * eps + eta)"
    using e2 by (intro mult_left_mono) simp_all
  also have "\<dots> = \<bar>m * p\<bar> * eps + \<bar>m\<bar> * eta"
    by (simp add: abs_mult distrib_left)
  finally have e3: "\<bar>m * p - a\<bar> \<le> \<bar>m * p\<bar> * eps + \<bar>m\<bar> * eta" .
  have "\<bar>m * p\<bar> \<le> \<bar>l\<bar> + \<bar>l - m * p\<bar>"
    by linarith
  with e1 have mp: "\<bar>m * p\<bar> \<le> \<bar>l\<bar> + \<bar>l\<bar> * eps + eta"
    by linarith
  have "\<bar>m * p\<bar> * eps \<le> (\<bar>l\<bar> + \<bar>l\<bar> * eps + eta) * eps"
    using mp eps(1) by (intro mult_right_mono)
  also have "\<dots> = \<bar>l\<bar> * eps + (\<bar>l\<bar> * eps) * eps + eta * eps"
    by (simp add: distrib_right)
  also have "\<dots> \<le> \<bar>l\<bar> * eps + \<bar>l\<bar> * eps + eta"
  proof -
    have "(\<bar>l\<bar> * eps) * eps \<le> (\<bar>l\<bar> * eps) * 1"
      using eps by (intro mult_left_mono) simp_all
    moreover have "eta * eps \<le> eta * 1"
      using eps eta by (intro mult_left_mono) simp_all
    ultimately show ?thesis by linarith
  qed
  finally have e4: "\<bar>m * p\<bar> * eps \<le> \<bar>l\<bar> * eps + \<bar>l\<bar> * eps + eta" .
  have "\<bar>l - a\<bar> \<le> \<bar>l - m * p\<bar> + \<bar>m * p - a\<bar>"
    by linarith
  moreover have "\<bar>l\<bar> * (4 * eps) + (2 + \<bar>m\<bar>) * eta =
      \<bar>l\<bar> * eps + \<bar>l\<bar> * eps + \<bar>l\<bar> * eps + \<bar>l\<bar> * eps + eta + eta + \<bar>m\<bar> * eta"
    by (simp add: algebra_simps)
  moreover have "0 \<le> \<bar>l\<bar> * eps"
    using eps(1) by simp
  ultimately have "\<bar>l - a\<bar> \<le> \<bar>l\<bar> * (4 * eps) + (2 + \<bar>m\<bar>) * eta"
    using e1 e3 e4 by linarith
  moreover have "4 * eps = 1 / 2 ^ 51"
    by (simp add: eps_def)
  ultimately show ?thesis
    by (simp add: eta_def)
qed

lemma finite_div_const: "finite_num (js_div a (Fin m)) \<Longrightarrow> finite_num a"
  by (cases a) simp_all

lemma mirror_pair_error:
  "\<bar>round_val (s + a) + round_val (s - a) - 2 * s\<bar> \<le>
     (\<bar>round_val (s + a)\<bar> + \<bar>round_val (s - a)\<bar>) / 2 ^ 53 + 1 / 2 ^ 1074"
proof -
  define eta :: rat where "eta = 1 / 2 ^ 1075"
  have e: "1 / 2 ^ 1074 = 2 * eta" by (simp add: eta_def)
  have "\<bar>round_val (s + a) - (s + a)\<bar> \<le> \<bar>round_val (s + a)\<bar> / 2 ^ 53 + eta"
    "\<bar>round_val (s - a) - (s - a)\<bar> \<le> \<bar>round_val (s - a)\<bar> / 2 ^ 53 + eta"
    unfolding eta_def by (rule round_val_rel_error)+
  then have "\<bar>round_val (s + a) + round_val (s - a) - 2 * s\<bar> \<le>
      \<bar>round_val (s + a)\<bar> / 2 ^ 53 + \<bar>round_val (s - a)\<bar> / 2 ^ 53 + 2 * eta"
    by linarith
  then show ?thesis
    unfolding e by (simp only: add_divide_distrib)
qed

lemma is_double_weightedTurn [simp]: "is_double (weightedTurnEffect fn ra cfg)"
  by (cases ra) (simp_all add: rawTurnEffect_def)

lemma fin_val_sub:
  assumes "is_double a" and "is_double b" and "finite_num (js_sub a b)"
  shows "finite_num a \<and> finite_num b \<and>
         fin_val (js_sub a b) = round_val (fin_val a - fin_val b)"
  using fin_val_add [of a "js_neg b"] assms by (simp add: js_sub_def is_double_neg)

lemma mirror_sum_bound:
  assumes "is_double s" and "is_double b"
    and "finite_num (js_add s b)" and "finite_num (js_sub s b)"
  shows "\<bar>fin_val (js_add s b) + fin_val (js_sub s b) - 2 * fin_val s\<bar> \<le>
      (\<bar>fin_val (js_add s b)\<bar> + \<bar>fin_val (js_sub s b)\<bar>) / 2 ^ 53 + 1 / 2 ^ 1074"
  using fin_val_add [OF assms(1,2,3)] fin_val_sub [OF assms(1,2,4)]
    mirror_pair_error [of "fin_val s" "fin_val b"]
  by simp

lemma mirror_sum_bound2:
  assumes "is_double s" and "is_double t" and "is_double f"
    and "finite_num (js_sub (js_add s t) f)" and "finite_num (js_add (js_sub s t) f)"
  shows "\<bar>fin_val (js_add (js_sub s t) f) + fin_val (js_sub (js_add s t) f) -
      2 * fin_val s\<bar> \<le>
      (\<bar>fin_val (js_add (js_sub s t) f)\<bar> + \<bar>fin_val (js_sub (js_add s t) f)\<bar> +
       \<bar>fin_val (js_sub s t)\<bar> + \<bar>fin_val (js_add s t)\<bar>) / 2 ^ 53 + 1 / 2 ^ 1073"
proof -
  define eta :: rat where "eta = 1 / 2 ^ 1075"
  define eps :: rat where "eps = 1 / 2 ^ 53"
  let ?A = "js_add s t" and ?B = "js_sub s t"
  have dA: "is_double ?A" and dB: "is_double ?B"
    using assms(1,2) by (simp_all add: is_double_add is_double_sub)
  from fin_val_sub [OF dA assms(3,4)]
  have fA: "finite_num ?A"
    and vb: "fin_val (js_sub ?A f) = round_val (fin_val ?A - fin_val f)"
    by simp_all
  from fin_val_add [OF dB assms(3,5)]
  have fB: "finite_num ?B"
    and vf: "fin_val (js_add ?B f) = round_val (fin_val ?B + fin_val f)"
    by simp_all
  have e1: "\<bar>fin_val (js_sub ?A f) - (fin_val ?A - fin_val f)\<bar> \<le>
      \<bar>fin_val (js_sub ?A f)\<bar> * eps + eta"
    using round_val_rel_error [of "fin_val ?A - fin_val f"]
    by (simp add: vb eps_def eta_def)
  have e2: "\<bar>fin_val (js_add ?B f) - (fin_val ?B + fin_val f)\<bar> \<le>
      \<bar>fin_val (js_add ?B f)\<bar> * eps + eta"
    using round_val_rel_error [of "fin_val ?B + fin_val f"]
    by (simp add: vf eps_def eta_def)
  have e3: "\<bar>fin_val ?A + fin_val ?B - 2 * fin_val s\<bar> \<le>
      (\<bar>fin_val ?A\<bar> + \<bar>fin_val ?B\<bar>) * eps + 2 * eta"
    using mirror_sum_bound [OF assms(1,2) fA fB] by (simp add: eps_def eta_def)
  have "\<bar>fin_val (js_add ?B f) + fin_val (js_sub ?A f) - 2 * fin_val s\<bar> \<le>
      \<bar>fin_val (js_add ?B f)\<bar> * eps + \<bar>fin_val (js_sub ?A f)\<bar> * eps +
      (\<bar>fin_val ?A\<bar> + \<bar>fin_val ?B\<bar>) * eps + 4 * eta"
    using e1 e2 e3 by linarith
  moreover have "4 * eta = 1 / 2 ^ 1073"
    by (simp add: eta_def)
  ultimately show ?thesis
    by (simp add: eps_def algebra_simps add_divide_distrib)
qed

lemma round_val_uminus: "round_val (- x) = - round_val x"
  by (cases "x = 0") (auto simp: round_val_def)

lemma round_val_nonneg: "0 \<le> x \<Longrightarrow> 0 \<le> round_val x"
  using round_val_mono [of 0 x] by simp

lemma finite_between:
  assumes "js_le a b" and "js_le b c" and "finite_num a" and "finite_num c"
  shows "finite_num b"
  using assms by (cases a; cases b; cases c) simp_all

lemma weighted_strict_pos:
  assumes "1 / 2 ^ 1021 \<le> f"
  shows "round_val (f * (5404319552844595 / 2 ^ 53)) < f \<and>
         f < round_val (f * (3152519739159347 / 2 ^ 51))"
proof -
  define eta :: rat where "eta = 1 / 2 ^ 1075"
  define low :: rat where "low = 1 / 2 ^ 1021"
  let ?h = "round_val (f * (3152519739159347 / 2 ^ 51))"
  let ?a = "round_val (f * (5404319552844595 / 2 ^ 53))"
  have small: "8 * eta < low" "0 < low"
    by (simp_all add: eta_def low_def)
  have f: "low \<le> f" using assms by (simp add: low_def)
  with small have f0: "0 \<le> f" by simp
  have h0: "0 \<le> ?h" and a0: "0 \<le> ?a"
    using f0 by (simp_all add: round_val_nonneg)
  have c14: "f * (5 / 4) \<le> f * (3152519739159347 / 2 ^ 51)"
    using f0 by (intro mult_left_mono) simp_all
  have c06: "f * (5404319552844595 / 2 ^ 53) \<le> f * (3 / 4)"
    using f0 by (intro mult_left_mono) simp_all
  have eh: "\<bar>?h - f * (3152519739159347 / 2 ^ 51)\<bar> \<le> \<bar>?h\<bar> / 2 ^ 53 + eta"
    unfolding eta_def by (rule round_val_rel_error)
  have ea: "\<bar>?a - f * (5404319552844595 / 2 ^ 53)\<bar> \<le> \<bar>?a\<bar> / 2 ^ 53 + eta"
    unfolding eta_def by (rule round_val_rel_error)
  have "?h / 2 ^ 53 \<le> ?h / 8"
    using h0 by (intro divide_left_mono) simp_all
  with eh h0 c14 have "f * (5 / 4) - ?h \<le> ?h / 8 + eta"
    by linarith
  with f small have 1: "f < ?h"
    by linarith
  have "?a / 2 ^ 53 \<le> ?a / 8"
    using a0 by (intro divide_left_mono) simp_all
  with ea a0 c06 have "?a - f * (3 / 4) \<le> ?a / 8 + eta"
    by linarith
  with f small have 2: "?a < f"
    by linarith
  from 1 2 show ?thesis by simp
qed

lemma weighted_strict:
  assumes "1 / 2 ^ 1021 \<le> \<bar>f\<bar>"
  shows "\<bar>round_val (f * (5404319552844595 / 2 ^ 53))\<bar> < \<bar>f\<bar> \<and>
         \<bar>f\<bar> < \<bar>round_val (f * (3152519739159347 / 2 ^ 51))\<bar>"
proof (cases "0 \<le> f")
  case True
  with assms have "1 / 2 ^ 1021 \<le> f" by simp
  from weighted_strict_pos [OF this] True show ?thesis
    using round_val_nonneg [of "f * (5404319552844595 / 2 ^ 53)"] by simp
next
  case False
  with assms have "1 / 2 ^ 1021 \<le> - f" by simp
  from weighted_strict_pos [OF this] False show ?thesis
    using round_val_nonneg [of "- f * (5404319552844595 / 2 ^ 53)"]
      round_val_uminus [of "f * (5404319552844595 / 2 ^ 53)"]
      round_val_uminus [of "f * (3152519739159347 / 2 ^ 51)"]
    by simp
qed

lemma weighted_fade_strict:
  assumes raw: "rawFadeEffect flightNumbers config = Fin f"
    and low: "1 / 2 ^ 1021 \<le> \<bar>f\<bar>"
    and fin: "finite_num (weightedFadeEffect flightNumbers Hyzer config)"
  shows "\<bar>fin_val (weightedFadeEffect flightNumbers Anhyzer config)\<bar> < \<bar>f\<bar> \<and>
         \<bar>f\<bar> < \<bar>fin_val (weightedFadeEffect flightNumbers Hyzer config)\<bar>"
proof -
  let ?c6 = "5404319552844595 / 2 ^ 53 :: rat"
  let ?c14 = "3152519739159347 / 2 ^ 51 :: rat"
  have "is_double (rawFadeEffect flightNumbers config)"
    by (simp add: rawFadeEffect_def)
  then have r: "js_round f = Fin f"
    by (simp add: raw)
  have h: "fin_val (weightedFadeEffect flightNumbers Hyzer config) = round_val (f * ?c14)"
    using fin fin_val_mul_const [of "Fin f" ?c14] by (simp add: raw lit_fractions_reduced)
  have "finite_num (js_round (f * ?c6))"
  proof (cases "0 \<le> f")
    case True
    then have "0 \<le> f * ?c6" "f * ?c6 \<le> f" by simp_all
    then have "js_le (js_round 0) (js_round (f * ?c6))" "js_le (js_round (f * ?c6)) (js_round f)"
      by (simp_all only: js_round_mono)
    then show ?thesis
      by (rule finite_between) (simp_all add: r)
  next
    case False
    then have "f * ?c6 \<le> 0" "f \<le> f * ?c6" by (simp_all add: mult_le_0_iff)
    then have "js_le (js_round f) (js_round (f * ?c6))" "js_le (js_round (f * ?c6)) (js_round 0)"
      by (simp_all only: js_round_mono)
    then show ?thesis
      by (rule finite_between) (simp_all add: r)
  qed
  then have a: "fin_val (weightedFadeEffect flightNumbers Anhyzer config) = round_val (f * ?c6)"
    by (simp add: raw lit_fractions_reduced fin_val_round)
  show ?thesis
    unfolding h a using low by (rule weighted_strict)
qed

lemma endX_values:
  assumes "is_double (startX config)"
    and "finite_num (endX (pathCoords flightNumbers Hyzer mirror config))"
    and "finite_num (endX (pathCoords flightNumbers Flat mirror config))"
    and "finite_num (endX (pathCoords flightNumbers Anhyzer mirror config))"
  shows "round_val (fin_val (startX config)) = fin_val (startX config)"
    and "fin_val (rawFadeEffect flightNumbers config) =
      round_val (fin_val (rawFadeEffect flightNumbers config))"
    and "finite_num (rawFadeEffect flightNumbers config)"
    and "fin_val (endX (pathCoords flightNumbers Hyzer mirror config)) =
      round_val (fin_val (startX config) + (if mirror then 1 else - 1) *
        round_val (fin_val (rawFadeEffect flightNumbers config) *
          (3152519739159347 / 2 ^ 51)))"
    and "fin_val (endX (pathCoords flightNumbers Flat mirror config)) =
      round_val (fin_val (startX config) + (if mirror then 1 else - 1) *
        fin_val (rawFadeEffect flightNumbers config))"
    and "fin_val (endX (pathCoords flightNumbers Anhyzer mirror config)) =
      round_val (fin_val (startX config) + (if mirror then 1 else - 1) *
        round_val (fin_val (rawFadeEffect flightNumbers config) *
          (5404319552844595 / 2 ^ 53)))"
proof -
  let ?s = "fin_val (startX config)"
  let ?F = "rawFadeEffect flightNumbers config"
  let ?f = "fin_val ?F"
  let ?G = "\<lambda>ra. js_neg (fadeEffect flightNumbers ra mirror config)"
  let ?t = "if mirror then 1 else - 1 :: rat"
  let ?h = "round_val (?f * (3152519739159347 / 2 ^ 51))"
  let ?a = "round_val (?f * (5404319552844595 / 2 ^ 53))"
  have endX: "endX (pathCoords flightNumbers ra mirror config) = js_add (startX config) (?G ra)"
    for ra
    by (simp add: pathCoords_fields js_sub_def)
  have dG: "is_double (?G ra)" for ra
    by (simp add: fadeEffect_def is_double_neg)
  have sum: "finite_num (startX config) \<and> finite_num (?G ra) \<and>
      fin_val (endX (pathCoords flightNumbers ra mirror config)) =
        round_val (?s + fin_val (?G ra))"
    if "finite_num (endX (pathCoords flightNumbers ra mirror config))" for ra
    using that fin_val_add [OF assms(1) dG, of ra] unfolding endX by simp
  have G: "fin_val (?G ra) = ?t * fin_val (weightedFadeEffect flightNumbers ra config)"
    "finite_num (?G ra) = finite_num (weightedFadeEffect flightNumbers ra config)" for ra
    by (simp_all add: fadeEffect_def)
  have fins: "finite_num (startX config)"
    "finite_num (weightedFadeEffect flightNumbers Hyzer config)"
    "finite_num (weightedFadeEffect flightNumbers Flat config)"
    "finite_num (weightedFadeEffect flightNumbers Anhyzer config)"
    using sum [OF assms(2)] sum [OF assms(3)] sum [OF assms(4)] by (simp_all only: G)
  have wF: "fin_val (weightedFadeEffect flightNumbers Flat config) = ?f"
    by simp
  have wH: "fin_val (weightedFadeEffect flightNumbers Hyzer config) = ?h"
    using fin_val_mul_const [of ?F "3152519739159347 / 2 ^ 51"] fins(2)
    by (simp add: lit_fractions_reduced)
  have wA: "fin_val (weightedFadeEffect flightNumbers Anhyzer config) = ?a"
    using fin_val_mul_const [of ?F "5404319552844595 / 2 ^ 53"] fins(4)
    by (simp add: lit_fractions_reduced)
  have "is_double ?F"
    by (simp add: rawFadeEffect_def)
  moreover show fF: "finite_num ?F"
    using fins(3) by simp
  ultimately show "?f = round_val ?f"
    by (simp add: round_val_double)
  show "round_val ?s = ?s"
    using assms(1) fins(1) by (rule round_val_double)
  show "fin_val (endX (pathCoords flightNumbers Hyzer mirror config)) =
        round_val (?s + ?t * ?h)"
    "fin_val (endX (pathCoords flightNumbers Flat mirror config)) =
        round_val (?s + ?t * ?f)"
    "fin_val (endX (pathCoords flightNumbers Anhyzer mirror config)) =
        round_val (?s + ?t * ?a)"
    using sum [OF assms(2)] sum [OF assms(3)] sum [OF assms(4)]
    by (simp_all only: G wF wH wA)
qed

lemma endpoint_offsets_ordered:
  assumes "is_double (startX config)"
    and "finite_num (endX (pathCoords flightNumbers Hyzer mirror config))"
    and "finite_num (endX (pathCoords flightNumbers Flat mirror config))"
    and "finite_num (endX (pathCoords flightNumbers Anhyzer mirror config))"
  shows "\<bar>fin_val (endX (pathCoords flightNumbers Flat mirror config)) -
            fin_val (startX config)\<bar> \<le>
         \<bar>fin_val (endX (pathCoords flightNumbers Hyzer mirror config)) -
            fin_val (startX config)\<bar> \<and>
         \<bar>fin_val (endX (pathCoords flightNumbers Anhyzer mirror config)) -
            fin_val (startX config)\<bar> \<le>
         \<bar>fin_val (endX (pathCoords flightNumbers Flat mirror config)) -
            fin_val (startX config)\<bar>"
proof -
  let ?s = "fin_val (startX config)"
  let ?f = "fin_val (rawFadeEffect flightNumbers config)"
  let ?t = "if mirror then 1 else - 1 :: rat"
  let ?h = "round_val (?f * (3152519739159347 / 2 ^ 51))"
  let ?a = "round_val (?f * (5404319552844595 / 2 ^ 53))"
  note v = endX_values [OF assms]
  have ord: "(0 \<le> ?a \<and> ?a \<le> ?f \<and> ?f \<le> ?h) \<or> (?h \<le> ?f \<and> ?f \<le> ?a \<and> ?a \<le> 0)"
    using v(2) by (rule weighted_fade_ordered)
  have "(0 \<le> ?t * ?f \<and> ?t * ?f \<le> ?t * ?h) \<or> (?t * ?h \<le> ?t * ?f \<and> ?t * ?f \<le> 0)"
    using ord by (cases mirror) auto
  then have 1: "\<bar>round_val (?s + ?t * ?f) - ?s\<bar> \<le> \<bar>round_val (?s + ?t * ?h) - ?s\<bar>"
    using v(1) by (intro offsets_ordered)
  have "(0 \<le> ?t * ?a \<and> ?t * ?a \<le> ?t * ?f) \<or> (?t * ?f \<le> ?t * ?a \<and> ?t * ?a \<le> 0)"
    using ord by (cases mirror) auto
  then have 2: "\<bar>round_val (?s + ?t * ?a) - ?s\<bar> \<le> \<bar>round_val (?s + ?t * ?f) - ?s\<bar>"
    using v(1) by (intro offsets_ordered)
  show ?thesis
    using 1 2 unfolding v(4,5,6) by simp
qed

lemma round_val_same:
  assumes "round_val x = round_val y"
  shows "\<bar>x - y\<bar> \<le> \<bar>round_val x\<bar> / 2 ^ 52 + 1 / 2 ^ 1074"
proof -
  define eta :: rat where "eta = 1 / 2 ^ 1075"
  define r where "r = round_val x"
  have "\<bar>r - x\<bar> \<le> \<bar>r\<bar> / 2 ^ 53 + eta" "\<bar>r - y\<bar> \<le> \<bar>r\<bar> / 2 ^ 53 + eta"
    using round_val_rel_error [of x] round_val_rel_error [of y] assms
    by (simp_all add: r_def eta_def)
  then have "\<bar>x - y\<bar> \<le> \<bar>r\<bar> / 2 ^ 53 + \<bar>r\<bar> / 2 ^ 53 + 2 * eta"
    by linarith
  moreover have "\<bar>r\<bar> / 2 ^ 53 + \<bar>r\<bar> / 2 ^ 53 = \<bar>r\<bar> / 2 ^ 52" "2 * eta = 1 / 2 ^ 1074"
    by (simp_all add: eta_def)
  ultimately show ?thesis
    by (simp add: r_def)
qed

lemma round_val_abs_le: "\<bar>round_val x\<bar> \<le> 2 * \<bar>x\<bar> + 1 / 2 ^ 1074"
proof -
  define eta :: rat where "eta = 1 / 2 ^ 1075"
  define r where "r = round_val x"
  have "\<bar>r - x\<bar> \<le> \<bar>r\<bar> / 2 ^ 53 + eta"
    using round_val_rel_error [of x] by (simp add: r_def eta_def)
  moreover have "\<bar>r\<bar> / 2 ^ 53 \<le> \<bar>r\<bar> / 2"
    by (intro divide_left_mono) simp_all
  ultimately have "\<bar>r\<bar> \<le> 2 * \<bar>x\<bar> + 2 * eta"
    by linarith
  then show ?thesis
    by (simp add: r_def eta_def)
qed

lemma offsets_strict:
  assumes s: "round_val s = s"
    and ab: "(0 \<le> a \<and> a \<le> b) \<or> (b \<le> a \<and> a \<le> 0)"
    and gap: "(\<bar>s\<bar> + \<bar>a\<bar>) / 2 ^ 51 + 1 / 2 ^ 1073 < \<bar>b - a\<bar>"
  shows "\<bar>round_val (s + a) - s\<bar> < \<bar>round_val (s + b) - s\<bar>"
proof (rule ccontr)
  assume "\<not> ?thesis"
  with offsets_ordered [OF s ab]
  have eq: "\<bar>round_val (s + a) - s\<bar> = \<bar>round_val (s + b) - s\<bar>"
    by simp
  have "round_val (s + a) = round_val (s + b)"
    using ab
  proof
    assume "0 \<le> a \<and> a \<le> b"
    then have "round_val s \<le> round_val (s + a)" "round_val s \<le> round_val (s + b)"
      by (simp_all add: round_val_mono)
    with eq show ?thesis unfolding s by linarith
  next
    assume "b \<le> a \<and> a \<le> 0"
    then have "round_val (s + a) \<le> round_val s" "round_val (s + b) \<le> round_val s"
      by (simp_all add: round_val_mono)
    with eq show ?thesis unfolding s by linarith
  qed
  from round_val_same [OF this]
  have 1: "\<bar>b - a\<bar> \<le> \<bar>round_val (s + a)\<bar> / 2 ^ 52 + 1 / 2 ^ 1074"
    by (simp add: abs_minus_commute)
  define eta :: rat where "eta = 1 / 2 ^ 1074"
  have eta: "0 \<le> eta" by (simp add: eta_def)
  have "\<bar>round_val (s + a)\<bar> \<le> 2 * \<bar>s + a\<bar> + eta"
    unfolding eta_def by (rule round_val_abs_le)
  also have "\<dots> \<le> 2 * (\<bar>s\<bar> + \<bar>a\<bar>) + eta"
    by (intro add_right_mono mult_left_mono abs_triangle_ineq) simp
  finally have "\<bar>round_val (s + a)\<bar> \<le> 2 * (\<bar>s\<bar> + \<bar>a\<bar>) + eta" .
  then have "\<bar>round_val (s + a)\<bar> / 2 ^ 52 \<le> (2 * (\<bar>s\<bar> + \<bar>a\<bar>) + eta) / 2 ^ 52"
    by (rule divide_right_mono) simp
  also have "\<dots> = (\<bar>s\<bar> + \<bar>a\<bar>) / 2 ^ 51 + eta / 2 ^ 52"
    by (simp add: add_divide_distrib)
  also have "\<dots> \<le> (\<bar>s\<bar> + \<bar>a\<bar>) / 2 ^ 51 + eta"
  proof -
    have "eta / 2 ^ 52 \<le> eta / 1"
      using eta by (intro divide_left_mono) simp_all
    then show ?thesis by simp
  qed
  finally have "\<bar>b - a\<bar> \<le> (\<bar>s\<bar> + \<bar>a\<bar>) / 2 ^ 51 + eta + eta"
    using 1 unfolding eta_def by linarith
  moreover have "eta + eta = 1 / 2 ^ 1073"
    by (simp add: eta_def)
  ultimately show False
    using gap by linarith
qed

lemma weighted_gap_pos:
  assumes "1 / 2 ^ 1021 \<le> f"
  shows "f / 16 \<le> f - round_val (f * (5404319552844595 / 2 ^ 53)) \<and>
         f / 16 \<le> round_val (f * (3152519739159347 / 2 ^ 51)) - f"
proof -
  define eta :: rat where "eta = 1 / 2 ^ 1075"
  define low :: rat where "low = 1 / 2 ^ 1021"
  let ?h = "round_val (f * (3152519739159347 / 2 ^ 51))"
  let ?a = "round_val (f * (5404319552844595 / 2 ^ 53))"
  have small: "64 * eta < low" "0 < low"
    by (simp_all add: eta_def low_def)
  have f: "low \<le> f" using assms by (simp add: low_def)
  with small have f0: "0 \<le> f" by simp
  have h0: "0 \<le> ?h" and a0: "0 \<le> ?a"
    using f0 by (simp_all add: round_val_nonneg)
  have c14: "f * (5 / 4) \<le> f * (3152519739159347 / 2 ^ 51)"
    using f0 by (intro mult_left_mono) simp_all
  have c06: "f * (5404319552844595 / 2 ^ 53) \<le> f * (3 / 4)"
    using f0 by (intro mult_left_mono) simp_all
  have eh: "\<bar>?h - f * (3152519739159347 / 2 ^ 51)\<bar> \<le> \<bar>?h\<bar> / 2 ^ 53 + eta"
    unfolding eta_def by (rule round_val_rel_error)
  have ea: "\<bar>?a - f * (5404319552844595 / 2 ^ 53)\<bar> \<le> \<bar>?a\<bar> / 2 ^ 53 + eta"
    unfolding eta_def by (rule round_val_rel_error)
  have "?h / 2 ^ 53 \<le> ?h / 16"
    using h0 by (intro divide_left_mono) simp_all
  with eh h0 c14 have "f * (5 / 4) - ?h \<le> ?h / 16 + eta"
    by linarith
  with f small have 1: "f / 16 \<le> ?h - f"
    by linarith
  have "?a / 2 ^ 53 \<le> ?a / 16"
    using a0 by (intro divide_left_mono) simp_all
  with ea a0 c06 have "?a - f * (3 / 4) \<le> ?a / 16 + eta"
    by linarith
  with f small have 2: "f / 16 \<le> f - ?a"
    by linarith
  from 1 2 show ?thesis by simp
qed

lemma weighted_gap:
  assumes "1 / 2 ^ 1021 \<le> \<bar>f\<bar>"
  shows "\<bar>f\<bar> / 16 \<le> \<bar>f - round_val (f * (5404319552844595 / 2 ^ 53))\<bar> \<and>
         \<bar>f\<bar> / 16 \<le> \<bar>round_val (f * (3152519739159347 / 2 ^ 51)) - f\<bar>"
proof (cases "0 \<le> f")
  case True
  with assms have "1 / 2 ^ 1021 \<le> f" by simp
  from weighted_gap_pos [OF this] True show ?thesis
    by simp
next
  case False
  with assms have "1 / 2 ^ 1021 \<le> - f" by simp
  from weighted_gap_pos [OF this] False show ?thesis
    using round_val_uminus [of "f * (5404319552844595 / 2 ^ 53)"]
      round_val_uminus [of "f * (3152519739159347 / 2 ^ 51)"]
    by simp
qed

lemma gap_enough:
  fixes F S A :: rat
  assumes "1 / 2 ^ 1021 \<le> F" and "S \<le> 2 ^ 45 * F" and "A \<le> F"
  shows "(S + A) / 2 ^ 51 + 1 / 2 ^ 1073 < F / 16"
proof -
  have F: "0 < F"
    using assms(1) by (rule less_le_trans [rotated]) simp
  have "S / 2 ^ 51 \<le> (2 ^ 45 * F) / 2 ^ 51"
    using assms(2) by (rule divide_right_mono) simp
  then have 1: "S / 2 ^ 51 \<le> F / 64"
    by simp
  have "A / 2 ^ 51 \<le> F / 2 ^ 51"
    using assms(3) by (rule divide_right_mono) simp
  moreover have "F / 2 ^ 51 \<le> F / 64"
    using F by (intro divide_left_mono) simp_all
  ultimately have 2: "A / 2 ^ 51 \<le> F / 64"
    by (rule order_trans)
  have "(1 / 2 ^ 1021) / 64 \<le> F / 64"
    using assms(1) by (rule divide_right_mono) simp
  moreover have "(1::rat) / 2 ^ 1073 < (1 / 2 ^ 1021) / 64"
    by simp
  ultimately have 3: "1 / 2 ^ 1073 < F / 64"
    by (rule less_le_trans [rotated])
  have "(S + A) / 2 ^ 51 = S / 2 ^ 51 + A / 2 ^ 51"
    by (rule add_divide_distrib)
  moreover have "F / 16 = F / 64 + F / 64 + F / 64 + F / 64"
    by simp
  moreover have "0 < F / 64"
    using F by simp
  ultimately show ?thesis
    using 1 2 3 by linarith
qed

lemma endpoint_offsets_strict:
  assumes "is_double (startX config)"
    and raw: "rawFadeEffect flightNumbers config = Fin f"
    and low: "1 / 2 ^ 1021 \<le> \<bar>f\<bar>"
    and rel: "\<bar>fin_val (startX config)\<bar> \<le> 2 ^ 45 * \<bar>f\<bar>"
    and "finite_num (endX (pathCoords flightNumbers Hyzer mirror config))"
    and "finite_num (endX (pathCoords flightNumbers Flat mirror config))"
    and "finite_num (endX (pathCoords flightNumbers Anhyzer mirror config))"
  shows "\<bar>fin_val (endX (pathCoords flightNumbers Flat mirror config)) -
            fin_val (startX config)\<bar> <
         \<bar>fin_val (endX (pathCoords flightNumbers Hyzer mirror config)) -
            fin_val (startX config)\<bar> \<and>
         \<bar>fin_val (endX (pathCoords flightNumbers Anhyzer mirror config)) -
            fin_val (startX config)\<bar> <
         \<bar>fin_val (endX (pathCoords flightNumbers Flat mirror config)) -
            fin_val (startX config)\<bar>"
proof -
  let ?s = "fin_val (startX config)"
  let ?t = "if mirror then 1 else - 1 :: rat"
  let ?h = "round_val (f * (3152519739159347 / 2 ^ 51))"
  let ?a = "round_val (f * (5404319552844595 / 2 ^ 53))"
  note v = endX_values [OF assms(1,5,6,7), unfolded raw fin_val.simps]
  have ord: "(0 \<le> ?a \<and> ?a \<le> f \<and> f \<le> ?h) \<or> (?h \<le> f \<and> f \<le> ?a \<and> ?a \<le> 0)"
    using v(2) by (rule weighted_fade_ordered)
  have t: "\<bar>?t * x\<bar> = \<bar>x\<bar>" "\<bar>?t * x - ?t * y\<bar> = \<bar>x - y\<bar>" for x y :: rat
    by (simp_all add: abs_minus_commute)
  from weighted_gap [OF low]
  have g: "\<bar>f\<bar> / 16 \<le> \<bar>f - ?a\<bar>" "\<bar>f\<bar> / 16 \<le> \<bar>?h - f\<bar>"
    by simp_all
  have "\<bar>f\<bar> \<le> \<bar>f\<bar>" by simp
  with low rel have "(\<bar>?s\<bar> + \<bar>f\<bar>) / 2 ^ 51 + 1 / 2 ^ 1073 < \<bar>f\<bar> / 16"
    by (rule gap_enough)
  with g(2) have gh: "(\<bar>?s\<bar> + \<bar>?t * f\<bar>) / 2 ^ 51 + 1 / 2 ^ 1073 < \<bar>?t * ?h - ?t * f\<bar>"
    unfolding t by linarith
  have "\<bar>?a\<bar> \<le> \<bar>f\<bar>"
    using ord by linarith
  with low rel have "(\<bar>?s\<bar> + \<bar>?a\<bar>) / 2 ^ 51 + 1 / 2 ^ 1073 < \<bar>f\<bar> / 16"
    by (rule gap_enough)
  with g(1) have ga: "(\<bar>?s\<bar> + \<bar>?t * ?a\<bar>) / 2 ^ 51 + 1 / 2 ^ 1073 < \<bar>?t * f - ?t * ?a\<bar>"
    unfolding t by linarith
  have "(0 \<le> ?t * f \<and> ?t * f \<le> ?t * ?h) \<or> (?t * ?h \<le> ?t * f \<and> ?t * f \<le> 0)"
    using ord by (cases mirror) auto
  with v(1) have 1: "\<bar>round_val (?s + ?t * f) - ?s\<bar> < \<bar>round_val (?s + ?t * ?h) - ?s\<bar>"
    using gh by (rule offsets_strict)
  have "(0 \<le> ?t * ?a \<and> ?t * ?a \<le> ?t * f) \<or> (?t * f \<le> ?t * ?a \<and> ?t * ?a \<le> 0)"
    using ord by (cases mirror) auto
  with v(1) have 2: "\<bar>round_val (?s + ?t * ?a) - ?s\<bar> < \<bar>round_val (?s + ?t * f) - ?s\<bar>"
    using ga by (rule offsets_strict)
  show ?thesis
    using 1 2 unfolding v(4,5,6) by simp
qed

lemma computed_coords_double:
  assumes "is_double (startX config)" and "is_double (startY config)"
  shows "is_double (cp1X (pathCoords flightNumbers releaseAngle mirror config))"
    and "is_double (cp1Y (pathCoords flightNumbers releaseAngle mirror config))"
    and "is_double (cp2X (pathCoords flightNumbers releaseAngle mirror config))"
    and "is_double (cp2Y (pathCoords flightNumbers releaseAngle mirror config))"
    and "is_double (endX (pathCoords flightNumbers releaseAngle mirror config))"
    and "is_double (endY (pathCoords flightNumbers releaseAngle mirror config))"
  using assms
  by (simp_all add: pathCoords_fields is_double_add is_double_sub is_double_neg
      turnEffect_def fadeEffect_def flightLength_def arcHeight_def)

section \<open>Evaluations at concrete inputs\<close>

lemma standard_flightLength:
  "estimatedDistance standardFlightNumbers DEFAULT_CONFIG = Fin 391"
  "pixelsPerFoot DEFAULT_CONFIG = Fin (5854679515581645 / 2 ^ 53)"
  "flightLength standardFlightNumbers DEFAULT_CONFIG = Fin (8942108166376653 / 2 ^ 45)"
proof -
  show e: "estimatedDistance standardFlightNumbers DEFAULT_CONFIG = Fin 391"
    by (simp add: estimatedDistance_def baseDistance_def glideBonus_def
        standardFlightNumbers_def stage_eval)
  show p: "pixelsPerFoot DEFAULT_CONFIG = Fin (5854679515581645 / 2 ^ 53)"
    by (simp add: pixelsPerFoot_def availableHeight_def stage_eval)
  show "flightLength standardFlightNumbers DEFAULT_CONFIG = Fin (8942108166376653 / 2 ^ 45)"
    by (simp add: flightLength_def e p js_eval)
qed

lemma standard_fadeEffect:
  "rawFadeEffect standardFlightNumbers DEFAULT_CONFIG = Fin (3219158939895595 / 2 ^ 46)"
proof -
  have "effectScale standardFlightNumbers DEFAULT_CONFIG = Fin (2289179690592423 / 2 ^ 51)"
    by (simp add: effectScale_def standard_flightLength stage_eval)
  then show ?thesis
    by (simp add: rawFadeEffect_def standardFlightNumbers_def stage_eval)
qed

lemma standard_endX:
  "endX (pathCoords standardFlightNumbers Hyzer False DEFAULT_CONFIG) =
     Fin (2530051901912567 / 2 ^ 46)"
  "endX (pathCoords standardFlightNumbers Flat False DEFAULT_CONFIG) =
     Fin (3817715477870805 / 2 ^ 46)"
  "endX (pathCoords standardFlightNumbers Anhyzer False DEFAULT_CONFIG) =
     Fin (5105379053829043 / 2 ^ 46)"
  "endX (pathCoords standardFlightNumbers Flat True DEFAULT_CONFIG) =
     Fin (2564008339415499 / 2 ^ 44)"
  by (simp_all add: pathCoords_fields fadeEffect_def standard_fadeEffect stage_eval)

lemma standard_endY:
  "endY (pathCoords standardFlightNumbers releaseAngle mirror DEFAULT_CONFIG) =
     Fin (909516018496307 / 2 ^ 45)"
  by (simp add: pathCoords_fields standard_flightLength stage_eval)

lemma standard_turnEffect:
  "rawTurnEffect standardFlightNumbers DEFAULT_CONFIG = Fin (- 2861474613240529 / 2 ^ 48)"
proof -
  have "effectScale standardFlightNumbers DEFAULT_CONFIG = Fin (2289179690592423 / 2 ^ 51)"
    by (simp add: effectScale_def standard_flightLength stage_eval)
  then show ?thesis
    by (simp add: rawTurnEffect_def standardFlightNumbers_def stage_eval)
qed

lemma standard_cp1X:
  "cp1X (pathCoords standardFlightNumbers Flat False DEFAULT_CONFIG) =
     Fin (1580376441114067 / 2 ^ 44)"
  "cp1X (pathCoords standardFlightNumbers Flat True DEFAULT_CONFIG) =
     Fin (1938060767769133 / 2 ^ 44)"
  by (simp_all add: pathCoords_fields turnEffect_def standard_turnEffect stage_eval)

lemma standard_cp2X:
  "cp2X (pathCoords standardFlightNumbers Flat False DEFAULT_CONFIG) =
     Fin (44636268821427 / 2 ^ 39)"
  "cp2X (pathCoords standardFlightNumbers Flat True DEFAULT_CONFIG) =
     Fin (65314893956173 / 2 ^ 39)"
  by (simp_all add: pathCoords_fields turnEffect_def fadeEffect_def standard_turnEffect
      standard_fadeEffect stage_eval)

lemma zero_maxDistance_coords:
  "pathCoords \<lparr>speed = Fin (- 40), glide = Fin 5, turn = Fin (- 1), fade = Fin 3\<rparr> ra False
     \<lparr>width = Fin 200, height = Fin 300, startX = Fin 100, startY = Fin 280,
      maxDistance = Zero False\<rparr> =
   \<lparr>moveX = Fin 100, moveY = Fin 280, cp1X = Inf False, cp1Y = Inf False, cp2X = Inf False,
    cp2Y = NaN, endX = Inf False, endY = Inf False\<rparr>"
proof -
  let ?fn = "\<lparr>speed = Fin (- 40), glide = Fin 5, turn = Fin (- 1), fade = Fin 3\<rparr>"
  let ?cfg = "\<lparr>width = Fin 200, height = Fin 300, startX = Fin 100, startY = Fin 280,
      maxDistance = Zero False\<rparr>"
  have e: "estimatedDistance ?fn ?cfg = Fin (- 1065)"
    by (simp add: estimatedDistance_def baseDistance_def glideBonus_def stage_eval)
  have p: "pixelsPerFoot ?cfg = Inf False"
    by (simp add: pixelsPerFoot_def availableHeight_def stage_eval)
  have f: "flightLength ?fn ?cfg = Inf True"
    by (simp add: flightLength_def e p)
  have s: "effectScale ?fn ?cfg = Inf True"
    by (simp add: effectScale_def f lit_integers)
  have r: "rawTurnEffect ?fn ?cfg = Inf False" "rawFadeEffect ?fn ?cfg = Inf True"
    "arcHeight ?fn ?cfg = Inf True"
    by (simp_all add: rawTurnEffect_def rawFadeEffect_def arcHeight_def s stage_eval)
  show ?thesis
    by (cases ra)
      (simp_all add: pathCoords_def turnEffect_def fadeEffect_def f r lit_fractions
        lit_fractions_reduced js_sub_def)
qed

lemma negative_numbers_coords:
  "pathCoords \<lparr>speed = Fin (- 2), glide = Fin (- 3), turn = Fin 9, fade = Fin (- 7)\<rparr> Flat True
     DEFAULT_CONFIG =
   \<lparr>moveX = Fin 100, moveY = Fin 280,
    cp1X = Fin (1927998037351727 / 2 ^ 44), cp1Y = Fin (5113344795669955 / 2 ^ 44),
    cp2X = Fin (237835140301901 / 2 ^ 41), cp2Y = Fin (5428399737102191 / 2 ^ 44),
    endX = Fin (7824511771346993 / 2 ^ 46), endY = Fin (2697321925260083 / 2 ^ 43)\<rparr>"
proof -
  let ?fn = "\<lparr>speed = Fin (- 2), glide = Fin (- 3), turn = Fin 9, fade = Fin (- 7)\<rparr>"
  have e: "estimatedDistance ?fn DEFAULT_CONFIG = Fin (- 41)"
    by (simp add: estimatedDistance_def baseDistance_def glideBonus_def stage_eval)
  have f: "flightLength ?fn DEFAULT_CONFIG = Fin (- 7501308129338983 / 2 ^ 48)"
    by (simp add: flightLength_def e standard_flightLength(2) js_eval)
  have s: "effectScale ?fn DEFAULT_CONFIG = Fin (- 7681339524443119 / 2 ^ 56)"
    by (simp add: effectScale_def f stage_eval)
  have t: "rawTurnEffect ?fn DEFAULT_CONFIG = Fin (- 1350235463281017 / 2 ^ 47)"
    by (simp add: rawTurnEffect_def s stage_eval)
  have r: "rawFadeEffect ?fn DEFAULT_CONFIG = Fin (3150549414322373 / 2 ^ 48)"
    by (simp add: rawFadeEffect_def s stage_eval)
  have a: "arcHeight ?fn DEFAULT_CONFIG = js_mul (Fin (- 18)) (Fin (- 7681339524443119 / 2 ^ 56))"
    by (simp add: arcHeight_def s stage_eval)
  have c1: "cp1X (pathCoords ?fn Flat True DEFAULT_CONFIG) = Fin (1927998037351727 / 2 ^ 44)"
    by (simp add: pathCoords_fields turnEffect_def t stage_eval)
  have c2: "cp1Y (pathCoords ?fn Flat True DEFAULT_CONFIG) = Fin (5113344795669955 / 2 ^ 44)"
    by (simp add: pathCoords_fields f stage_eval)
  have c3: "cp2X (pathCoords ?fn Flat True DEFAULT_CONFIG) = Fin (237835140301901 / 2 ^ 41)"
    by (simp add: pathCoords_fields turnEffect_def fadeEffect_def t r stage_eval)
  have c6: "endY (pathCoords ?fn Flat True DEFAULT_CONFIG) = Fin (2697321925260083 / 2 ^ 43)"
    by (simp add: pathCoords_fields f stage_eval)
  have c4: "cp2Y (pathCoords ?fn Flat True DEFAULT_CONFIG) = Fin (5428399737102191 / 2 ^ 44)"
    by (simp add: pathCoords_fields f a stage_eval)
  have c5: "endX (pathCoords ?fn Flat True DEFAULT_CONFIG) = Fin (7824511771346993 / 2 ^ 46)"
    by (simp add: pathCoords_fields fadeEffect_def r stage_eval)
  have "moveX (pathCoords ?fn Flat True DEFAULT_CONFIG) = Fin 100"
    "moveY (pathCoords ?fn Flat True DEFAULT_CONFIG) = Fin 280"
    by (simp_all add: pathCoords_fields DEFAULT_CONFIG_fields)
  with c1 c2 c3 c4 c5 c6 show ?thesis
    by (cases "pathCoords ?fn Flat True DEFAULT_CONFIG") simp
qed

section \<open>Properties of calculateFlightPath\<close>

text \<open>
  C1. For every flight numbers value and every canvas config (given or defaulted),
  the throw type \<open>rhbh\<close> returns exactly the FlightPaths of \<open>lhfh\<close>, and \<open>rhfh\<close> exactly
  those of \<open>lhbh\<close>: all three descriptors are the same strings.
\<close>

theorem throw_type_symmetry:
  "calculateFlightPath str flightNumbers RHBH config =
     calculateFlightPath str flightNumbers LHFH config \<and>
   calculateFlightPath str flightNumbers RHFH config =
     calculateFlightPath str flightNumbers LHBH config"
  by (simp add: calculateFlightPath_def shouldMirror_def)

text \<open>
  C2 as stated fails: the forehand x coordinates are not the reflection of the rounded
  backhand coordinates. For speed 3, glide 6, turn -5, fade 5 and the default canvas the
  flat backhand curve ends at x = 71.92 (to the nearest binary64 value) and the forehand
  curve at 128.08, while startX - (71.92 - startX) evaluates to 128.07999999999998, one
  unit in the last place below.
\<close>

theorem mirror_not_exact:
  "endX (pathCoords \<lparr>speed = Fin 3, glide = Fin 6, turn = Fin (- 5), fade = Fin 5\<rparr> Flat (shouldMirror RHBH) DEFAULT_CONFIG) =
     Fin (5060920081257595 / 2 ^ 46) \<and>
   endX (pathCoords \<lparr>speed = Fin 3, glide = Fin 6, turn = Fin (- 5), fade = Fin 5\<rparr> Flat (shouldMirror RHFH) DEFAULT_CONFIG) =
     Fin (4506414377137603 / 2 ^ 45) \<and>
   js_sub (startX DEFAULT_CONFIG)
     (js_sub (endX (pathCoords \<lparr>speed = Fin 3, glide = Fin 6, turn = Fin (- 5), fade = Fin 5\<rparr> Flat (shouldMirror RHBH) DEFAULT_CONFIG))
        (startX DEFAULT_CONFIG)) =
     Fin (4506414377137602 / 2 ^ 45) \<and>
   endX (pathCoords \<lparr>speed = Fin 3, glide = Fin 6, turn = Fin (- 5), fade = Fin 5\<rparr> Flat (shouldMirror RHFH) DEFAULT_CONFIG) \<noteq>
     js_sub (startX DEFAULT_CONFIG)
       (js_sub (endX (pathCoords \<lparr>speed = Fin 3, glide = Fin 6, turn = Fin (- 5), fade = Fin 5\<rparr> Flat (shouldMirror RHBH) DEFAULT_CONFIG))
          (startX DEFAULT_CONFIG))"
proof -
  let ?fn = "\<lparr>speed = Fin 3, glide = Fin 6, turn = Fin (- 5), fade = Fin 5\<rparr>"
  have e: "estimatedDistance ?fn DEFAULT_CONFIG = Fin 144"
    by (simp add: estimatedDistance_def baseDistance_def glideBonus_def stage_eval)
  have f: "flightLength ?fn DEFAULT_CONFIG = Fin (6586514455029351 / 2 ^ 46)"
    by (simp add: flightLength_def e standard_flightLength(2) js_eval)
  have s: "effectScale ?fn DEFAULT_CONFIG = Fin (6744590801950055 / 2 ^ 54)"
    by (simp add: effectScale_def f stage_eval)
  have r: "rawFadeEffect ?fn DEFAULT_CONFIG = Fin (7903817346035221 / 2 ^ 48)"
    by (simp add: rawFadeEffect_def s stage_eval)
  have bh: "endX (pathCoords ?fn Flat False DEFAULT_CONFIG) = Fin (5060920081257595 / 2 ^ 46)"
    by (simp add: pathCoords_fields fadeEffect_def r stage_eval)
  have fh: "endX (pathCoords ?fn Flat True DEFAULT_CONFIG) = Fin (4506414377137603 / 2 ^ 45)"
    by (simp add: pathCoords_fields fadeEffect_def r stage_eval)
  show ?thesis
    by (simp add: shouldMirror_def bh fh stage_eval)
qed

text \<open>
  C2, amended. For every flight numbers value, canvas config and release angle, the
  descriptors of \<open>rhbh\<close> print the unmirrored curve and those of \<open>rhfh\<close> the mirrored one.
  The \<open>rhfh\<close> curve has the y coordinates of the \<open>rhbh\<close> curve, and its x coordinates
  are computed from the same turn and fade offsets with the opposite sign: where the
  \<open>rhbh\<close> curve adds an offset to startX the \<open>rhfh\<close> curve subtracts it, and conversely.
  Each sum is rounded on its own, so the reflection about startX holds up to rounding,
  not exactly: when startX is a binary64 number and the coordinates are finite, the
  \<open>rhfh\<close> x plus the \<open>rhbh\<close> x differs from 2 * startX by at most 2^-53 of the
  magnitudes of the two coordinates (for cp2X also of the two intermediate sums
  startX + turnEffect * 0.5 and startX - turnEffect * 0.5), plus 2^-1074 (2^-1073 for
  cp2X) for results in the subnormal range.
\<close>

theorem mirror_negates_offsets:
  "calculateFlightPath str flightNumbers RHBH (Some config) =
     \<lparr>hyzer = svgPath str (pathCoords flightNumbers Hyzer (shouldMirror RHBH) config),
      flat = svgPath str (pathCoords flightNumbers Flat (shouldMirror RHBH) config),
      anhyzer = svgPath str (pathCoords flightNumbers Anhyzer (shouldMirror RHBH) config)\<rparr> \<and>
   calculateFlightPath str flightNumbers RHFH (Some config) =
     \<lparr>hyzer = svgPath str (pathCoords flightNumbers Hyzer (shouldMirror RHFH) config),
      flat = svgPath str (pathCoords flightNumbers Flat (shouldMirror RHFH) config),
      anhyzer = svgPath str (pathCoords flightNumbers Anhyzer (shouldMirror RHFH) config)\<rparr> \<and>
   pathCoords flightNumbers releaseAngle (shouldMirror RHBH) config =
     \<lparr>moveX = startX config, moveY = startY config,
      cp1X = js_add (startX config) (weightedTurnEffect flightNumbers releaseAngle config),
      cp1Y = js_sub (startY config) (js_mul (flightLength flightNumbers config) (lit (4 / 10))),
      cp2X = js_sub
        (js_add (startX config)
           (js_mul (weightedTurnEffect flightNumbers releaseAngle config) (lit (1 / 2))))
        (js_mul (weightedFadeEffect flightNumbers releaseAngle config) (lit (3 / 10))),
      cp2Y = js_add (js_sub (startY config) (flightLength flightNumbers config))
        (arcHeight flightNumbers config),
      endX = js_sub (startX config) (weightedFadeEffect flightNumbers releaseAngle config),
      endY = js_sub (startY config) (flightLength flightNumbers config)\<rparr> \<and>
   pathCoords flightNumbers releaseAngle (shouldMirror RHFH) config =
     \<lparr>moveX = startX config, moveY = startY config,
      cp1X = js_sub (startX config) (weightedTurnEffect flightNumbers releaseAngle config),
      cp1Y = js_sub (startY config) (js_mul (flightLength flightNumbers config) (lit (4 / 10))),
      cp2X = js_add
        (js_sub (startX config)
           (js_mul (weightedTurnEffect flightNumbers releaseAngle config) (lit (1 / 2))))
        (js_mul (weightedFadeEffect flightNumbers releaseAngle config) (lit (3 / 10))),
      cp2Y = js_add (js_sub (startY config) (flightLength flightNumbers config))
        (arcHeight flightNumbers config),
      endX = js_add (startX config) (weightedFadeEffect flightNumbers releaseAngle config),
      endY = js_sub (startY config) (flightLength flightNumbers config)\<rparr> \<and>
   moveY (pathCoords flightNumbers releaseAngle (shouldMirror RHFH) config) =
     moveY (pathCoords flightNumbers releaseAngle (shouldMirror RHBH) config) \<and>
   cp1Y (pathCoords flightNumbers releaseAngle (shouldMirror RHFH) config) =
     cp1Y (pathCoords flightNumbers releaseAngle (shouldMirror RHBH) config) \<and>
   cp2Y (pathCoords flightNumbers releaseAngle (shouldMirror RHFH) config) =
     cp2Y (pathCoords flightNumbers releaseAngle (shouldMirror RHBH) config) \<and>
   endY (pathCoords flightNumbers releaseAngle (shouldMirror RHFH) config) =
     endY (pathCoords flightNumbers releaseAngle (shouldMirror RHBH) config) \<and>
   (is_double (startX config) \<and>
    finite_num (endX (pathCoords flightNumbers releaseAngle (shouldMirror RHBH) config)) \<and>
    finite_num (endX (pathCoords flightNumbers releaseAngle (shouldMirror RHFH) config)) \<longrightarrow>
    \<bar>fin_val (endX (pathCoords flightNumbers releaseAngle (shouldMirror RHFH) config)) +
     fin_val (endX (pathCoords flightNumbers releaseAngle (shouldMirror RHBH) config)) -
     2 * fin_val (startX config)\<bar> \<le>
      (\<bar>fin_val (endX (pathCoords flightNumbers releaseAngle (shouldMirror RHFH) config))\<bar> +
       \<bar>fin_val (endX (pathCoords flightNumbers releaseAngle (shouldMirror RHBH) config))\<bar>) / 2 ^ 53 +
      1 / 2 ^ 1074) \<and>
   (is_double (startX config) \<and>
    finite_num (cp1X (pathCoords flightNumbers releaseAngle (shouldMirror RHBH) config)) \<and>
    finite_num (cp1X (pathCoords flightNumbers releaseAngle (shouldMirror RHFH) config)) \<longrightarrow>
    \<bar>fin_val (cp1X (pathCoords flightNumbers releaseAngle (shouldMirror RHBH) config)) +
     fin_val (cp1X (pathCoords flightNumbers releaseAngle (shouldMirror RHFH) config)) -
     2 * fin_val (startX config)\<bar> \<le>
      (\<bar>fin_val (cp1X (pathCoords flightNumbers releaseAngle (shouldMirror RHBH) config))\<bar> +
       \<bar>fin_val (cp1X (pathCoords flightNumbers releaseAngle (shouldMirror RHFH) config))\<bar>) / 2 ^ 53 +
      1 / 2 ^ 1074) \<and>
   (is_double (startX config) \<and>
    finite_num (cp2X (pathCoords flightNumbers releaseAngle (shouldMirror RHBH) config)) \<and>
    finite_num (cp2X (pathCoords flightNumbers releaseAngle (shouldMirror RHFH) config)) \<longrightarrow>
    \<bar>fin_val (cp2X (pathCoords flightNumbers releaseAngle (shouldMirror RHFH) config)) +
     fin_val (cp2X (pathCoords flightNumbers releaseAngle (shouldMirror RHBH) config)) -
     2 * fin_val (startX config)\<bar> \<le>
      (\<bar>fin_val (cp2X (pathCoords flightNumbers releaseAngle (shouldMirror RHFH) config))\<bar> +
       \<bar>fin_val (cp2X (pathCoords flightNumbers releaseAngle (shouldMirror RHBH) config))\<bar> +
       \<bar>fin_val (js_sub (startX config)
          (js_mul (weightedTurnEffect flightNumbers releaseAngle config) (lit (1 / 2))))\<bar> +
       \<bar>fin_val (js_add (startX config)
          (js_mul (weightedTurnEffect flightNumbers releaseAngle config) (lit (1 / 2))))\<bar>) /
        2 ^ 53 +
      1 / 2 ^ 1073)"
proof -
  have m: "shouldMirror RHBH = False" "shouldMirror RHFH = True"
    by (simp_all add: shouldMirror_def)
  have bh: "calculateFlightPath str flightNumbers RHBH (Some config) =
       \<lparr>hyzer = svgPath str (pathCoords flightNumbers Hyzer (shouldMirror RHBH) config),
        flat = svgPath str (pathCoords flightNumbers Flat (shouldMirror RHBH) config),
        anhyzer = svgPath str (pathCoords flightNumbers Anhyzer (shouldMirror RHBH) config)\<rparr>"
    by (simp add: calculateFlightPath_def generatePath_def)
  have fh: "calculateFlightPath str flightNumbers RHFH (Some config) =
       \<lparr>hyzer = svgPath str (pathCoords flightNumbers Hyzer (shouldMirror RHFH) config),
        flat = svgPath str (pathCoords flightNumbers Flat (shouldMirror RHFH) config),
        anhyzer = svgPath str (pathCoords flightNumbers Anhyzer (shouldMirror RHFH) config)\<rparr>"
    by (simp add: calculateFlightPath_def generatePath_def)
  have coords: "pathCoords flightNumbers releaseAngle (shouldMirror RHBH) config =
       \<lparr>moveX = startX config, moveY = startY config,
        cp1X = js_add (startX config) (weightedTurnEffect flightNumbers releaseAngle config),
        cp1Y = js_sub (startY config) (js_mul (flightLength flightNumbers config) (lit (4 / 10))),
        cp2X = js_sub
          (js_add (startX config)
             (js_mul (weightedTurnEffect flightNumbers releaseAngle config) (lit (1 / 2))))
          (js_mul (weightedFadeEffect flightNumbers releaseAngle config) (lit (3 / 10))),
        cp2Y = js_add (js_sub (startY config) (flightLength flightNumbers config))
          (arcHeight flightNumbers config),
        endX = js_sub (startX config) (weightedFadeEffect flightNumbers releaseAngle config),
        endY = js_sub (startY config) (flightLength flightNumbers config)\<rparr> \<and>
     pathCoords flightNumbers releaseAngle (shouldMirror RHFH) config =
       \<lparr>moveX = startX config, moveY = startY config,
        cp1X = js_sub (startX config) (weightedTurnEffect flightNumbers releaseAngle config),
        cp1Y = js_sub (startY config) (js_mul (flightLength flightNumbers config) (lit (4 / 10))),
        cp2X = js_add
          (js_sub (startX config)
             (js_mul (weightedTurnEffect flightNumbers releaseAngle config) (lit (1 / 2))))
          (js_mul (weightedFadeEffect flightNumbers releaseAngle config) (lit (3 / 10))),
        cp2Y = js_add (js_sub (startY config) (flightLength flightNumbers config))
          (arcHeight flightNumbers config),
        endX = js_add (startX config) (weightedFadeEffect flightNumbers releaseAngle config),
        endY = js_sub (startY config) (flightLength flightNumbers config)\<rparr> \<and>
     moveY (pathCoords flightNumbers releaseAngle (shouldMirror RHFH) config) =
       moveY (pathCoords flightNumbers releaseAngle (shouldMirror RHBH) config) \<and>
     cp1Y (pathCoords flightNumbers releaseAngle (shouldMirror RHFH) config) =
       cp1Y (pathCoords flightNumbers releaseAngle (shouldMirror RHBH) config) \<and>
     cp2Y (pathCoords flightNumbers releaseAngle (shouldMirror RHFH) config) =
       cp2Y (pathCoords flightNumbers releaseAngle (shouldMirror RHBH) config) \<and>
     endY (pathCoords flightNumbers releaseAngle (shouldMirror RHFH) config) =
       endY (pathCoords flightNumbers releaseAngle (shouldMirror RHBH) config) \<and>
     (is_double (startX config) \<and>
      finite_num (endX (pathCoords flightNumbers releaseAngle (shouldMirror RHBH) config)) \<and>
      finite_num (endX (pathCoords flightNumbers releaseAngle (shouldMirror RHFH) config)) \<longrightarrow>
      \<bar>fin_val (endX (pathCoords flightNumbers releaseAngle (shouldMirror RHFH) config)) +
       fin_val (endX (pathCoords flightNumbers releaseAngle (shouldMirror RHBH) config)) -
       2 * fin_val (startX config)\<bar> \<le>
        (\<bar>fin_val (endX (pathCoords flightNumbers releaseAngle (shouldMirror RHFH) config))\<bar> +
         \<bar>fin_val (endX (pathCoords flightNumbers releaseAngle (shouldMirror RHBH) config))\<bar>) / 2 ^ 53 +
        1 / 2 ^ 1074) \<and>
     (is_double (startX config) \<and>
      finite_num (cp1X (pathCoords flightNumbers releaseAngle (shouldMirror RHBH) config)) \<and>
      finite_num (cp1X (pathCoords flightNumbers releaseAngle (shouldMirror RHFH) config)) \<longrightarrow>
      \<bar>fin_val (cp1X (pathCoords flightNumbers releaseAngle (shouldMirror RHBH) config)) +
       fin_val (cp1X (pathCoords flightNumbers releaseAngle (shouldMirror RHFH) config)) -
       2 * fin_val (startX config)\<bar> \<le>
        (\<bar>fin_val (cp1X (pathCoords flightNumbers releaseAngle (shouldMirror RHBH) config))\<bar> +
         \<bar>fin_val (cp1X (pathCoords flightNumbers releaseAngle (shouldMirror RHFH) config))\<bar>) / 2 ^ 53 +
        1 / 2 ^ 1074) \<and>
     (is_double (startX config) \<and>
      finite_num (cp2X (pathCoords flightNumbers releaseAngle (shouldMirror RHBH) config)) \<and>
      finite_num (cp2X (pathCoords flightNumbers releaseAngle (shouldMirror RHFH) config)) \<longrightarrow>
      \<bar>fin_val (cp2X (pathCoords flightNumbers releaseAngle (shouldMirror RHFH) config)) +
       fin_val (cp2X (pathCoords flightNumbers releaseAngle (shouldMirror RHBH) config)) -
       2 * fin_val (startX config)\<bar> \<le>
        (\<bar>fin_val (cp2X (pathCoords flightNumbers releaseAngle (shouldMirror RHFH) config))\<bar> +
         \<bar>fin_val (cp2X (pathCoords flightNumbers releaseAngle (shouldMirror RHBH) config))\<bar> +
         \<bar>fin_val (js_sub (startX config)
            (js_mul (weightedTurnEffect flightNumbers releaseAngle config) (lit (1 / 2))))\<bar> +
         \<bar>fin_val (js_add (startX config)
            (js_mul (weightedTurnEffect flightNumbers releaseAngle config) (lit (1 / 2))))\<bar>) /
          2 ^ 53 +
        1 / 2 ^ 1073)"
  proof -
    let ?s = "startX config"
    let ?T = "weightedTurnEffect flightNumbers releaseAngle config"
    let ?F = "weightedFadeEffect flightNumbers releaseAngle config"
    let ?TH = "js_mul ?T (lit (1 / 2))"
    let ?F3 = "js_mul ?F (lit (3 / 10))"
    have shape: "pathCoords flightNumbers releaseAngle False config =
       \<lparr>moveX = startX config, moveY = startY config,
        cp1X = js_add ?s ?T,
        cp1Y = js_sub (startY config) (js_mul (flightLength flightNumbers config) (lit (4 / 10))),
        cp2X = js_sub (js_add ?s ?TH) ?F3,
        cp2Y = js_add (js_sub (startY config) (flightLength flightNumbers config))
          (arcHeight flightNumbers config),
        endX = js_sub ?s ?F,
        endY = js_sub (startY config) (flightLength flightNumbers config)\<rparr> \<and>
     pathCoords flightNumbers releaseAngle True config =
       \<lparr>moveX = startX config, moveY = startY config,
        cp1X = js_sub ?s ?T,
        cp1Y = js_sub (startY config) (js_mul (flightLength flightNumbers config) (lit (4 / 10))),
        cp2X = js_add (js_sub ?s ?TH) ?F3,
        cp2Y = js_add (js_sub (startY config) (flightLength flightNumbers config))
          (arcHeight flightNumbers config),
        endX = js_add ?s ?F,
        endY = js_sub (startY config) (flightLength flightNumbers config)\<rparr>"
      by (simp add: pathCoords_def turnEffect_def fadeEffect_def lit_fractions js_mul_neg_left
          js_sub_def)
    have x: "endX (pathCoords flightNumbers releaseAngle False config) = js_sub ?s ?F"
      "endX (pathCoords flightNumbers releaseAngle True config) = js_add ?s ?F"
      "cp1X (pathCoords flightNumbers releaseAngle False config) = js_add ?s ?T"
      "cp1X (pathCoords flightNumbers releaseAngle True config) = js_sub ?s ?T"
      "cp2X (pathCoords flightNumbers releaseAngle False config) = js_sub (js_add ?s ?TH) ?F3"
      "cp2X (pathCoords flightNumbers releaseAngle True config) = js_add (js_sub ?s ?TH) ?F3"
      by (simp_all only: shape PathCoords.simps)
    show ?thesis
      unfolding m x
    proof (intro conjI impI)
      show "pathCoords flightNumbers releaseAngle False config =
       \<lparr>moveX = startX config, moveY = startY config,
        cp1X = js_add ?s ?T,
        cp1Y = js_sub (startY config) (js_mul (flightLength flightNumbers config) (lit (4 / 10))),
        cp2X = js_sub (js_add ?s ?TH) ?F3,
        cp2Y = js_add (js_sub (startY config) (flightLength flightNumbers config))
          (arcHeight flightNumbers config),
        endX = js_sub ?s ?F,
        endY = js_sub (startY config) (flightLength flightNumbers config)\<rparr>"
        using shape by (rule conjunct1)
      show "pathCoords flightNumbers releaseAngle True config =
       \<lparr>moveX = startX config, moveY = startY config,
        cp1X = js_sub ?s ?T,
        cp1Y = js_sub (startY config) (js_mul (flightLength flightNumbers config) (lit (4 / 10))),
        cp2X = js_add (js_sub ?s ?TH) ?F3,
        cp2Y = js_add (js_sub (startY config) (flightLength flightNumbers config))
          (arcHeight flightNumbers config),
        endX = js_add ?s ?F,
        endY = js_sub (startY config) (flightLength flightNumbers config)\<rparr>"
        using shape by (rule conjunct2)
    next
      assume "is_double ?s \<and> finite_num (js_sub ?s ?F) \<and> finite_num (js_add ?s ?F)"
      then show "\<bar>fin_val (js_add ?s ?F) + fin_val (js_sub ?s ?F) - 2 * fin_val ?s\<bar> \<le>
          (\<bar>fin_val (js_add ?s ?F)\<bar> + \<bar>fin_val (js_sub ?s ?F)\<bar>) / 2 ^ 53 + 1 / 2 ^ 1074"
        by (intro mirror_sum_bound) simp_all
    next
      assume "is_double ?s \<and> finite_num (js_add ?s ?T) \<and> finite_num (js_sub ?s ?T)"
      then show "\<bar>fin_val (js_add ?s ?T) + fin_val (js_sub ?s ?T) - 2 * fin_val ?s\<bar> \<le>
          (\<bar>fin_val (js_add ?s ?T)\<bar> + \<bar>fin_val (js_sub ?s ?T)\<bar>) / 2 ^ 53 + 1 / 2 ^ 1074"
        by (intro mirror_sum_bound) simp_all
    next
      assume "is_double ?s \<and> finite_num (js_sub (js_add ?s ?TH) ?F3) \<and>
        finite_num (js_add (js_sub ?s ?TH) ?F3)"
      then show "\<bar>fin_val (js_add (js_sub ?s ?TH) ?F3) + fin_val (js_sub (js_add ?s ?TH) ?F3) -
          2 * fin_val ?s\<bar> \<le>
          (\<bar>fin_val (js_add (js_sub ?s ?TH) ?F3)\<bar> + \<bar>fin_val (js_sub (js_add ?s ?TH) ?F3)\<bar> +
           \<bar>fin_val (js_sub ?s ?TH)\<bar> + \<bar>fin_val (js_add ?s ?TH)\<bar>) / 2 ^ 53 + 1 / 2 ^ 1073"
        by (intro mirror_sum_bound2) simp_all
    qed (simp_all only: pathCoords_fields)
  qed
  from conjI [OF bh conjI [OF fh coords]] show ?thesis .
qed

theorem mirror_negates_offsets_witness:
  "\<bar>fin_val (endX (pathCoords standardFlightNumbers Flat (shouldMirror RHFH) DEFAULT_CONFIG)) +
    fin_val (endX (pathCoords standardFlightNumbers Flat (shouldMirror RHBH) DEFAULT_CONFIG)) - 2 * 100\<bar> \<le>
     (\<bar>fin_val (endX (pathCoords standardFlightNumbers Flat (shouldMirror RHFH) DEFAULT_CONFIG))\<bar> +
      \<bar>fin_val (endX (pathCoords standardFlightNumbers Flat (shouldMirror RHBH) DEFAULT_CONFIG))\<bar>) / 2 ^ 53 +
     1 / 2 ^ 1074 \<and>
   \<bar>fin_val (cp1X (pathCoords standardFlightNumbers Flat (shouldMirror RHBH) DEFAULT_CONFIG)) +
    fin_val (cp1X (pathCoords standardFlightNumbers Flat (shouldMirror RHFH) DEFAULT_CONFIG)) - 2 * 100\<bar> \<le>
     (\<bar>fin_val (cp1X (pathCoords standardFlightNumbers Flat (shouldMirror RHBH) DEFAULT_CONFIG))\<bar> +
      \<bar>fin_val (cp1X (pathCoords standardFlightNumbers Flat (shouldMirror RHFH) DEFAULT_CONFIG))\<bar>) / 2 ^ 53 +
     1 / 2 ^ 1074 \<and>
   \<bar>fin_val (cp2X (pathCoords standardFlightNumbers Flat (shouldMirror RHFH) DEFAULT_CONFIG)) +
    fin_val (cp2X (pathCoords standardFlightNumbers Flat (shouldMirror RHBH) DEFAULT_CONFIG)) - 2 * 100\<bar> \<le>
     (\<bar>fin_val (cp2X (pathCoords standardFlightNumbers Flat (shouldMirror RHFH) DEFAULT_CONFIG))\<bar> +
      \<bar>fin_val (cp2X (pathCoords standardFlightNumbers Flat (shouldMirror RHBH) DEFAULT_CONFIG))\<bar> +
      \<bar>fin_val (js_sub (Fin 100)
         (js_mul (weightedTurnEffect standardFlightNumbers Flat DEFAULT_CONFIG) (lit (1 / 2))))\<bar> +
      \<bar>fin_val (js_add (Fin 100)
         (js_mul (weightedTurnEffect standardFlightNumbers Flat DEFAULT_CONFIG) (lit (1 / 2))))\<bar>) /
       2 ^ 53 +
     1 / 2 ^ 1073 \<and>
   endY (pathCoords standardFlightNumbers Flat (shouldMirror RHFH) DEFAULT_CONFIG) =
     endY (pathCoords standardFlightNumbers Flat (shouldMirror RHBH) DEFAULT_CONFIG)"
proof -
  note t = mirror_negates_offsets
    [where flightNumbers = standardFlightNumbers and releaseAngle = Flat
      and config = DEFAULT_CONFIG]
  have d: "is_double (startX DEFAULT_CONFIG)"
    by (simp add: stage_eval)
  have f: "finite_num (endX (pathCoords standardFlightNumbers Flat (shouldMirror RHBH) DEFAULT_CONFIG))"
    "finite_num (endX (pathCoords standardFlightNumbers Flat (shouldMirror RHFH) DEFAULT_CONFIG))"
    "finite_num (cp1X (pathCoords standardFlightNumbers Flat (shouldMirror RHBH) DEFAULT_CONFIG))"
    "finite_num (cp1X (pathCoords standardFlightNumbers Flat (shouldMirror RHFH) DEFAULT_CONFIG))"
    "finite_num (cp2X (pathCoords standardFlightNumbers Flat (shouldMirror RHBH) DEFAULT_CONFIG))"
    "finite_num (cp2X (pathCoords standardFlightNumbers Flat (shouldMirror RHFH) DEFAULT_CONFIG))"
    by (simp_all add: shouldMirror_def standard_endX standard_cp1X standard_cp2X)
  from t d f(1,2) have 1:
    "\<bar>fin_val (endX (pathCoords standardFlightNumbers Flat (shouldMirror RHFH) DEFAULT_CONFIG)) +
      fin_val (endX (pathCoords standardFlightNumbers Flat (shouldMirror RHBH) DEFAULT_CONFIG)) -
      2 * fin_val (startX DEFAULT_CONFIG)\<bar> \<le>
     (\<bar>fin_val (endX (pathCoords standardFlightNumbers Flat (shouldMirror RHFH) DEFAULT_CONFIG))\<bar> +
      \<bar>fin_val (endX (pathCoords standardFlightNumbers Flat (shouldMirror RHBH) DEFAULT_CONFIG))\<bar>) / 2 ^ 53 +
     1 / 2 ^ 1074"
    by blast
  from t d f(3,4) have 2:
    "\<bar>fin_val (cp1X (pathCoords standardFlightNumbers Flat (shouldMirror RHBH) DEFAULT_CONFIG)) +
      fin_val (cp1X (pathCoords standardFlightNumbers Flat (shouldMirror RHFH) DEFAULT_CONFIG)) -
      2 * fin_val (startX DEFAULT_CONFIG)\<bar> \<le>
     (\<bar>fin_val (cp1X (pathCoords standardFlightNumbers Flat (shouldMirror RHBH) DEFAULT_CONFIG))\<bar> +
      \<bar>fin_val (cp1X (pathCoords standardFlightNumbers Flat (shouldMirror RHFH) DEFAULT_CONFIG))\<bar>) / 2 ^ 53 +
     1 / 2 ^ 1074"
    by blast
  from t d f(5,6) have 3:
    "\<bar>fin_val (cp2X (pathCoords standardFlightNumbers Flat (shouldMirror RHFH) DEFAULT_CONFIG)) +
      fin_val (cp2X (pathCoords standardFlightNumbers Flat (shouldMirror RHBH) DEFAULT_CONFIG)) -
      2 * fin_val (startX DEFAULT_CONFIG)\<bar> \<le>
     (\<bar>fin_val (cp2X (pathCoords standardFlightNumbers Flat (shouldMirror RHFH) DEFAULT_CONFIG))\<bar> +
      \<bar>fin_val (cp2X (pathCoords standardFlightNumbers Flat (shouldMirror RHBH) DEFAULT_CONFIG))\<bar> +
      \<bar>fin_val (js_sub (startX DEFAULT_CONFIG)
         (js_mul (weightedTurnEffect standardFlightNumbers Flat DEFAULT_CONFIG) (lit (1 / 2))))\<bar> +
      \<bar>fin_val (js_add (startX DEFAULT_CONFIG)
         (js_mul (weightedTurnEffect standardFlightNumbers Flat DEFAULT_CONFIG) (lit (1 / 2))))\<bar>) /
       2 ^ 53 +
     1 / 2 ^ 1073"
    by blast
  from t have 4: "endY (pathCoords standardFlightNumbers Flat (shouldMirror RHFH) DEFAULT_CONFIG) =
      endY (pathCoords standardFlightNumbers Flat (shouldMirror RHBH) DEFAULT_CONFIG)"
    by blast
  from 1 2 3 4 show ?thesis
    unfolding DEFAULT_CONFIG_fields fin_val.simps by blast
qed

text \<open>
  C3 as stated fails: on a canvas with startY 48 and maxDistance 400 (availableHeight 28),
  speed 15 and glide 7 give 485 feet, above the cap, yet flightLength is
  400 * (28 / 400) = 28.000000000000004 and endY is 19.999999999999996.
\<close>

theorem capped_flight_not_exact:
  "js_lt (maxDistance \<lparr>width = Fin 200, height = Fin 300, startX = Fin 100, startY = Fin 48,
        maxDistance = Fin 400\<rparr>)
     (js_add (baseDistance \<lparr>speed = Fin 15, glide = Fin 7, turn = Fin (- 1), fade = Fin 3\<rparr>) (glideBonus \<lparr>speed = Fin 15, glide = Fin 7, turn = Fin (- 1), fade = Fin 3\<rparr>)) \<and>
   availableHeight \<lparr>width = Fin 200, height = Fin 300, startX = Fin 100, startY = Fin 48,
        maxDistance = Fin 400\<rparr> = Fin 28 \<and>
   flightLength \<lparr>speed = Fin 15, glide = Fin 7, turn = Fin (- 1), fade = Fin 3\<rparr> \<lparr>width = Fin 200, height = Fin 300, startX = Fin 100, startY = Fin 48,
        maxDistance = Fin 400\<rparr> = Fin (28 + 1 / 2 ^ 48) \<and>
   endY (pathCoords \<lparr>speed = Fin 15, glide = Fin 7, turn = Fin (- 1), fade = Fin 3\<rparr> Flat (shouldMirror RHBH) \<lparr>width = Fin 200, height = Fin 300, startX = Fin 100, startY = Fin 48,
        maxDistance = Fin 400\<rparr>) = Fin (20 - 1 / 2 ^ 48)"
proof -
  let ?fn = "\<lparr>speed = Fin 15, glide = Fin 7, turn = Fin (- 1), fade = Fin 3\<rparr>"
  let ?cfg = "\<lparr>width = Fin 200, height = Fin 300, startX = Fin 100, startY = Fin 48,
        maxDistance = Fin 400\<rparr>"
  have d: "js_add (baseDistance ?fn) (glideBonus ?fn) = Fin 485"
    by (simp add: baseDistance_def glideBonus_def stage_eval)
  have a: "availableHeight ?cfg = Fin 28"
    by (simp add: availableHeight_def stage_eval)
  have p: "pixelsPerFoot ?cfg = Fin (1261007895663739 / 2 ^ 54)"
    by (simp add: pixelsPerFoot_def a js_eval)
  have e: "estimatedDistance ?fn ?cfg = Fin 400"
    by (simp add: estimatedDistance_def d math_min_def)
  have f: "flightLength ?fn ?cfg = Fin (28 + 1 / 2 ^ 48)"
    by (simp add: flightLength_def e p js_eval)
  have y: "endY (pathCoords ?fn Flat False ?cfg) = Fin (20 - 1 / 2 ^ 48)"
    by (simp add: pathCoords_fields f js_eval)
  show ?thesis
    by (simp add: d a f y shouldMirror_def)
qed

text \<open>
  C3, amended. Whenever baseDistance + glideBonus strictly exceeds maxDistance,
  estimatedDistance is exactly maxDistance, so flightLength is the binary64 product
  maxDistance * ((startY - 20) / maxDistance), the same for every speed, glide, throw type
  and release angle. For a finite non-zero maxDistance and a finite flightLength the
  product differs from availableHeight by at most 2^-51 of its magnitude (plus
  (2 + \<bar>maxDistance\<bar>) * 2^-1075 for the subnormal range), the rounding of the division
  and of the multiplication; it need not be equal. For the default canvas (startY 280,
  maxDistance 400) it is exactly 260 = availableHeight and endY is exactly 20.
\<close>

theorem capped_distance:
  assumes "js_lt (maxDistance config)
     (js_add (baseDistance flightNumbers) (glideBonus flightNumbers))"
  shows "estimatedDistance flightNumbers config = maxDistance config \<and>
         flightLength flightNumbers config =
           js_mul (maxDistance config)
             (js_div (js_sub (startY config) (Fin 20)) (maxDistance config)) \<and>
         (maxDistance config = Fin m \<and> m \<noteq> 0 \<and>
          finite_num (flightLength flightNumbers config) \<longrightarrow>
          \<bar>fin_val (flightLength flightNumbers config) - fin_val (availableHeight config)\<bar> \<le>
            \<bar>fin_val (flightLength flightNumbers config)\<bar> / 2 ^ 51 + (2 + \<bar>m\<bar>) / 2 ^ 1075) \<and>
         (startY config = Fin 280 \<and> maxDistance config = Fin 400 \<longrightarrow>
          availableHeight config = Fin 260 \<and>
          flightLength flightNumbers config = Fin 260 \<and>
          endY (pathCoords flightNumbers releaseAngle mirror config) = Fin 20)"
proof -
  have est: "estimatedDistance flightNumbers config = maxDistance config"
    unfolding estimatedDistance_def using assms by (rule math_min_right)
  then have fl: "flightLength flightNumbers config =
      js_mul (maxDistance config)
        (js_div (js_sub (startY config) (Fin 20)) (maxDistance config))"
    by (simp add: flightLength_def pixelsPerFoot_def availableHeight_def lit_integers)
  have bound: "\<bar>fin_val (flightLength flightNumbers config) -
        fin_val (availableHeight config)\<bar> \<le>
      \<bar>fin_val (flightLength flightNumbers config)\<bar> / 2 ^ 51 + (2 + \<bar>m\<bar>) / 2 ^ 1075"
    if c: "maxDistance config = Fin m" "m \<noteq> 0"
      "finite_num (flightLength flightNumbers config)"
  proof -
    let ?A = "availableHeight config"
    let ?P = "js_div ?A (Fin m)"
    have f: "flightLength flightNumbers config = js_mul (Fin m) ?P"
      using est by (simp add: flightLength_def pixelsPerFoot_def c(1))
    with c(3) have "finite_num (js_mul (Fin m) ?P)" by simp
    from fin_val_mul_left [OF this c(2)]
    have P: "finite_num ?P" and v: "fin_val (js_mul (Fin m) ?P) = round_val (m * fin_val ?P)"
      by simp_all
    from P have A: "finite_num ?A" by (rule finite_div_const)
    from A P have "fin_val ?P = round_val (fin_val ?A / m)"
      by (rule fin_val_div_const)
    with v have "fin_val (flightLength flightNumbers config) =
        round_val (m * round_val (fin_val ?A / m))"
      by (simp add: f)
    then show ?thesis
      using scaled_back_error [OF c(2), of "fin_val ?A"] by simp
  qed
  have "availableHeight config = Fin 260 \<and> flightLength flightNumbers config = Fin 260 \<and>
      endY (pathCoords flightNumbers releaseAngle mirror config) = Fin 20"
    if c: "startY config = Fin 280" "maxDistance config = Fin 400"
  proof -
    have ah: "availableHeight config = Fin 260"
      by (simp add: availableHeight_def c lit_integers js_eval)
    have "js_div (Fin 260) (Fin 400) = Fin (5854679515581645 / 2 ^ 53)"
      by (simp add: js_eval)
    then have f: "flightLength flightNumbers config = Fin 260"
      unfolding fl c by (simp add: js_eval)
    have "js_sub (Fin 280) (Fin 260) = Fin 20"
      by (simp add: js_eval)
    with ah f show ?thesis
      by (simp add: pathCoords_fields c)
  qed
  with est fl bound show ?thesis by blast
qed

theorem capped_distance_witness:
  "estimatedDistance \<lparr>speed = Fin 15, glide = Fin 7, turn = Fin (- 1), fade = Fin 3\<rparr>
      DEFAULT_CONFIG = Fin 400 \<and>
   flightLength \<lparr>speed = Fin 15, glide = Fin 7, turn = Fin (- 1), fade = Fin 3\<rparr>
      DEFAULT_CONFIG = Fin 260 \<and>
   endY (pathCoords \<lparr>speed = Fin 15, glide = Fin 7, turn = Fin (- 1), fade = Fin 3\<rparr>
      Anhyzer True DEFAULT_CONFIG) = Fin 20 \<and>
   \<bar>fin_val (flightLength \<lparr>speed = Fin 15, glide = Fin 7, turn = Fin (- 1), fade = Fin 3\<rparr>
      DEFAULT_CONFIG) - fin_val (availableHeight DEFAULT_CONFIG)\<bar> \<le>
     \<bar>fin_val (flightLength \<lparr>speed = Fin 15, glide = Fin 7, turn = Fin (- 1), fade = Fin 3\<rparr>
      DEFAULT_CONFIG)\<bar> / 2 ^ 51 + (2 + \<bar>400\<bar>) / 2 ^ 1075"
proof -
  let ?fn = "\<lparr>speed = Fin 15, glide = Fin 7, turn = Fin (- 1), fade = Fin 3\<rparr>"
  have "js_add (baseDistance ?fn) (glideBonus ?fn) = Fin 485"
    by (simp add: baseDistance_def glideBonus_def stage_eval)
  then have "js_lt (maxDistance DEFAULT_CONFIG) (js_add (baseDistance ?fn) (glideBonus ?fn))"
    by (simp add: DEFAULT_CONFIG_fields)
  from capped_distance [OF this, of 400 Anhyzer True] show ?thesis
    by (simp add: DEFAULT_CONFIG_fields js_eval)
qed

text \<open>
  C4. The scenario of the tests' standard flight numbers (speed 12, glide 5, turn -1,
  fade 3) on the default canvas. The flat descriptor is the path string of the flat
  curve's numbers. The flat path of \<open>rhbh\<close> starts at (100, 280);
  estimatedDistance is 391; pixelsPerFoot is the binary64 value 0.65 and flightLength the
  binary64 value 254.15; fadeEffect is 45.75 and the end point (54.25, 25.85) to two
  decimals. The flat path of \<open>rhfh\<close> ends at (145.75, 25.85) to two decimals, and its endX
  is 100 - (endX of \<open>rhbh\<close> - 100) as evaluated in binary64.
\<close>

theorem scenario_speed12:
  "flat (calculateFlightPath str standardFlightNumbers RHBH None) =
     svgPath str (pathCoords standardFlightNumbers Flat (shouldMirror RHBH) DEFAULT_CONFIG) \<and>
   flat (calculateFlightPath str standardFlightNumbers RHFH None) =
     svgPath str (pathCoords standardFlightNumbers Flat (shouldMirror RHFH) DEFAULT_CONFIG) \<and>
   moveX (pathCoords standardFlightNumbers Flat (shouldMirror RHBH) DEFAULT_CONFIG) = Fin 100 \<and>
   moveY (pathCoords standardFlightNumbers Flat (shouldMirror RHBH) DEFAULT_CONFIG) = Fin 280 \<and>
   estimatedDistance standardFlightNumbers DEFAULT_CONFIG = Fin 391 \<and>
   pixelsPerFoot DEFAULT_CONFIG = lit (65 / 100) \<and>
   flightLength standardFlightNumbers DEFAULT_CONFIG = lit (25415 / 100) \<and>
   \<bar>fin_val (fadeEffect standardFlightNumbers Flat (shouldMirror RHBH) DEFAULT_CONFIG)
      - 4575 / 100\<bar> \<le> 1 / 200 \<and>
   \<bar>fin_val (endX (pathCoords standardFlightNumbers Flat (shouldMirror RHBH) DEFAULT_CONFIG))
      - 5425 / 100\<bar> \<le> 1 / 200 \<and>
   \<bar>fin_val (endY (pathCoords standardFlightNumbers Flat (shouldMirror RHBH) DEFAULT_CONFIG))
      - 2585 / 100\<bar> \<le> 1 / 200 \<and>
   \<bar>fin_val (endX (pathCoords standardFlightNumbers Flat (shouldMirror RHFH) DEFAULT_CONFIG))
      - 14575 / 100\<bar> \<le> 1 / 200 \<and>
   \<bar>fin_val (endY (pathCoords standardFlightNumbers Flat (shouldMirror RHFH) DEFAULT_CONFIG))
      - 2585 / 100\<bar> \<le> 1 / 200 \<and>
   endX (pathCoords standardFlightNumbers Flat (shouldMirror RHFH) DEFAULT_CONFIG) =
     js_sub (Fin 100)
       (js_sub (endX (pathCoords standardFlightNumbers Flat (shouldMirror RHBH) DEFAULT_CONFIG))
          (Fin 100))"
  by (simp add: calculateFlightPath_coords shouldMirror_def standard_endX standard_endY
      standard_flightLength pathCoords_fields(1,2) DEFAULT_CONFIG_fields fadeEffect_def
      standard_fadeEffect js_eval)

text \<open>
  C5 as stated fails: with fade 3 on a canvas whose startY is 20 (availableHeight 0) the
  flight length and every effect are zero, and the hyzer, flat and anhyzer curves all end
  at x = startX = 100: no offset is strictly greater than another.
\<close>

theorem zero_height_no_ordering:
  "fade standardFlightNumbers = Fin 3 \<and>
   endX (pathCoords standardFlightNumbers Hyzer (shouldMirror RHBH) \<lparr>width = Fin 200, height = Fin 300, startX = Fin 100, startY = Fin 20,
        maxDistance = Fin 400\<rparr>) = Fin 100 \<and>
   endX (pathCoords standardFlightNumbers Flat (shouldMirror RHBH) \<lparr>width = Fin 200, height = Fin 300, startX = Fin 100, startY = Fin 20,
        maxDistance = Fin 400\<rparr>) = Fin 100 \<and>
   endX (pathCoords standardFlightNumbers Anhyzer (shouldMirror RHBH) \<lparr>width = Fin 200, height = Fin 300, startX = Fin 100, startY = Fin 20,
        maxDistance = Fin 400\<rparr>) = Fin 100 \<and>
   \<not> \<bar>fin_val (endX (pathCoords standardFlightNumbers Flat (shouldMirror RHBH) \<lparr>width = Fin 200, height = Fin 300, startX = Fin 100, startY = Fin 20,
        maxDistance = Fin 400\<rparr>)) -
        fin_val (startX \<lparr>width = Fin 200, height = Fin 300, startX = Fin 100, startY = Fin 20,
        maxDistance = Fin 400\<rparr>)\<bar> <
     \<bar>fin_val (endX (pathCoords standardFlightNumbers Hyzer (shouldMirror RHBH) \<lparr>width = Fin 200, height = Fin 300, startX = Fin 100, startY = Fin 20,
        maxDistance = Fin 400\<rparr>)) -
        fin_val (startX \<lparr>width = Fin 200, height = Fin 300, startX = Fin 100, startY = Fin 20,
        maxDistance = Fin 400\<rparr>)\<bar>"
proof -
  let ?cfg = "\<lparr>width = Fin 200, height = Fin 300, startX = Fin 100, startY = Fin 20,
        maxDistance = Fin 400\<rparr>"
  have a: "availableHeight ?cfg = Zero False"
    by (simp add: availableHeight_def stage_eval)
  have e: "estimatedDistance standardFlightNumbers ?cfg = Fin 391"
    by (simp add: estimatedDistance_def baseDistance_def glideBonus_def
        standardFlightNumbers_def stage_eval)
  have r: "rawFadeEffect standardFlightNumbers ?cfg = Zero False"
    by (simp add: rawFadeEffect_def effectScale_def flightLength_def pixelsPerFoot_def a
        e [unfolded standardFlightNumbers_def] standardFlightNumbers_def stage_eval)
  have x: "endX (pathCoords standardFlightNumbers releaseAngle False ?cfg) = Fin 100"
    for releaseAngle
    by (cases releaseAngle) (simp_all add: pathCoords_fields fadeEffect_def r stage_eval)
  have "fade standardFlightNumbers = Fin 3"
    by (simp add: standardFlightNumbers_def)
  then show ?thesis
    by (simp add: x shouldMirror_def)
qed

text \<open>
  C5, amended. The release angle weights the fade effect by the binary64 values of 1.4
  (hyzer), 1.0 (flat) and 0.6 (anhyzer) and the turn effect by 0.5, 1.0 and 1.6. The
  weighted fade effects are strictly ordered in magnitude, hyzer above flat above
  anhyzer, whenever the flat fade effect is a finite number of magnitude at least 2^-1021
  and the hyzer one does not overflow. When startX is a binary64 number and the three
  end points are finite, the end-point offsets \<bar>endX - startX\<bar> are in the same order,
  hyzer at least flat at least anhyzer; the order is strict when in addition the flat
  fade effect has magnitude at least 2^-1021 and at least 2^-45 of \<bar>startX\<bar>. It is not
  strict for every non-zero fade: the offsets are all zero when the effect scale is zero,
  and a fade effect too small beside startX is lost in the rounding of the subtraction.
\<close>

theorem release_angle_ordering:
  "weightedFadeEffect flightNumbers Hyzer config =
     js_mul (rawFadeEffect flightNumbers config) (lit (14 / 10)) \<and>
   weightedFadeEffect flightNumbers Flat config = rawFadeEffect flightNumbers config \<and>
   weightedFadeEffect flightNumbers Anhyzer config =
     js_mul (rawFadeEffect flightNumbers config) (lit (6 / 10)) \<and>
   weightedTurnEffect flightNumbers Hyzer config =
     js_mul (rawTurnEffect flightNumbers config) (lit (1 / 2)) \<and>
   weightedTurnEffect flightNumbers Flat config = rawTurnEffect flightNumbers config \<and>
   weightedTurnEffect flightNumbers Anhyzer config =
     js_mul (rawTurnEffect flightNumbers config) (lit (16 / 10)) \<and>
   (rawFadeEffect flightNumbers config = Fin f \<and> 1 / 2 ^ 1021 \<le> \<bar>f\<bar> \<and>
    finite_num (weightedFadeEffect flightNumbers Hyzer config) \<longrightarrow>
    \<bar>fin_val (weightedFadeEffect flightNumbers Anhyzer config)\<bar> < \<bar>f\<bar> \<and>
    \<bar>f\<bar> < \<bar>fin_val (weightedFadeEffect flightNumbers Hyzer config)\<bar>) \<and>
   (is_double (startX config) \<and>
    finite_num (endX (pathCoords flightNumbers Hyzer mirror config)) \<and>
    finite_num (endX (pathCoords flightNumbers Flat mirror config)) \<and>
    finite_num (endX (pathCoords flightNumbers Anhyzer mirror config)) \<longrightarrow>
    \<bar>fin_val (endX (pathCoords flightNumbers Flat mirror config)) -
       fin_val (startX config)\<bar> \<le>
    \<bar>fin_val (endX (pathCoords flightNumbers Hyzer mirror config)) -
       fin_val (startX config)\<bar> \<and>
    \<bar>fin_val (endX (pathCoords flightNumbers Anhyzer mirror config)) -
       fin_val (startX config)\<bar> \<le>
    \<bar>fin_val (endX (pathCoords flightNumbers Flat mirror config)) -
       fin_val (startX config)\<bar>) \<and>
   (is_double (startX config) \<and> rawFadeEffect flightNumbers config = Fin f \<and>
    1 / 2 ^ 1021 \<le> \<bar>f\<bar> \<and> \<bar>fin_val (startX config)\<bar> \<le> 2 ^ 45 * \<bar>f\<bar> \<and>
    finite_num (endX (pathCoords flightNumbers Hyzer mirror config)) \<and>
    finite_num (endX (pathCoords flightNumbers Flat mirror config)) \<and>
    finite_num (endX (pathCoords flightNumbers Anhyzer mirror config)) \<longrightarrow>
    \<bar>fin_val (endX (pathCoords flightNumbers Flat mirror config)) -
       fin_val (startX config)\<bar> <
    \<bar>fin_val (endX (pathCoords flightNumbers Hyzer mirror config)) -
       fin_val (startX config)\<bar> \<and>
    \<bar>fin_val (endX (pathCoords flightNumbers Anhyzer mirror config)) -
       fin_val (startX config)\<bar> <
    \<bar>fin_val (endX (pathCoords flightNumbers Flat mirror config)) -
       fin_val (startX config)\<bar>)"
proof (intro conjI impI)
  assume "rawFadeEffect flightNumbers config = Fin f \<and> 1 / 2 ^ 1021 \<le> \<bar>f\<bar> \<and>
    finite_num (weightedFadeEffect flightNumbers Hyzer config)"
  then have s: "\<bar>fin_val (weightedFadeEffect flightNumbers Anhyzer config)\<bar> < \<bar>f\<bar> \<and>
      \<bar>f\<bar> < \<bar>fin_val (weightedFadeEffect flightNumbers Hyzer config)\<bar>"
    by (elim conjE) (rule weighted_fade_strict; assumption)
  from s show "\<bar>fin_val (weightedFadeEffect flightNumbers Anhyzer config)\<bar> < \<bar>f\<bar>"
    by (rule conjunct1)
  from s show "\<bar>f\<bar> < \<bar>fin_val (weightedFadeEffect flightNumbers Hyzer config)\<bar>"
    by (rule conjunct2)
next
  assume a: "is_double (startX config) \<and>
    finite_num (endX (pathCoords flightNumbers Hyzer mirror config)) \<and>
    finite_num (endX (pathCoords flightNumbers Flat mirror config)) \<and>
    finite_num (endX (pathCoords flightNumbers Anhyzer mirror config))"
  then have o: "\<bar>fin_val (endX (pathCoords flightNumbers Flat mirror config)) -
        fin_val (startX config)\<bar> \<le>
      \<bar>fin_val (endX (pathCoords flightNumbers Hyzer mirror config)) -
        fin_val (startX config)\<bar> \<and>
      \<bar>fin_val (endX (pathCoords flightNumbers Anhyzer mirror config)) -
        fin_val (startX config)\<bar> \<le>
      \<bar>fin_val (endX (pathCoords flightNumbers Flat mirror config)) -
        fin_val (startX config)\<bar>"
    by (elim conjE) (rule endpoint_offsets_ordered; assumption)
  from o show "\<bar>fin_val (endX (pathCoords flightNumbers Flat mirror config)) -
        fin_val (startX config)\<bar> \<le>
      \<bar>fin_val (endX (pathCoords flightNumbers Hyzer mirror config)) -
        fin_val (startX config)\<bar>"
    by (rule conjunct1)
  from o show "\<bar>fin_val (endX (pathCoords flightNumbers Anhyzer mirror config)) -
        fin_val (startX config)\<bar> \<le>
      \<bar>fin_val (endX (pathCoords flightNumbers Flat mirror config)) -
        fin_val (startX config)\<bar>"
    by (rule conjunct2)
next
  assume "is_double (startX config) \<and> rawFadeEffect flightNumbers config = Fin f \<and>
    1 / 2 ^ 1021 \<le> \<bar>f\<bar> \<and> \<bar>fin_val (startX config)\<bar> \<le> 2 ^ 45 * \<bar>f\<bar> \<and>
    finite_num (endX (pathCoords flightNumbers Hyzer mirror config)) \<and>
    finite_num (endX (pathCoords flightNumbers Flat mirror config)) \<and>
    finite_num (endX (pathCoords flightNumbers Anhyzer mirror config))"
  then have o: "\<bar>fin_val (endX (pathCoords flightNumbers Flat mirror config)) -
        fin_val (startX config)\<bar> <
      \<bar>fin_val (endX (pathCoords flightNumbers Hyzer mirror config)) -
        fin_val (startX config)\<bar> \<and>
      \<bar>fin_val (endX (pathCoords flightNumbers Anhyzer mirror config)) -
        fin_val (startX config)\<bar> <
      \<bar>fin_val (endX (pathCoords flightNumbers Flat mirror config)) -
        fin_val (startX config)\<bar>"
    by (elim conjE) (rule endpoint_offsets_strict; assumption)
  from o show "\<bar>fin_val (endX (pathCoords flightNumbers Flat mirror config)) -
        fin_val (startX config)\<bar> <
      \<bar>fin_val (endX (pathCoords flightNumbers Hyzer mirror config)) -
        fin_val (startX config)\<bar>"
    by (rule conjunct1)
  from o show "\<bar>fin_val (endX (pathCoords flightNumbers Anhyzer mirror config)) -
        fin_val (startX config)\<bar> <
      \<bar>fin_val (endX (pathCoords flightNumbers Flat mirror config)) -
        fin_val (startX config)\<bar>"
    by (rule conjunct2)
qed simp_all

theorem release_angle_ordering_witness:
  "\<bar>fin_val (endX (pathCoords standardFlightNumbers Flat False DEFAULT_CONFIG)) - 100\<bar> <
   \<bar>fin_val (endX (pathCoords standardFlightNumbers Hyzer False DEFAULT_CONFIG)) - 100\<bar> \<and>
   \<bar>fin_val (endX (pathCoords standardFlightNumbers Anhyzer False DEFAULT_CONFIG)) - 100\<bar> <
   \<bar>fin_val (endX (pathCoords standardFlightNumbers Flat False DEFAULT_CONFIG)) - 100\<bar> \<and>
   \<bar>fin_val (endX (pathCoords standardFlightNumbers Flat False DEFAULT_CONFIG)) - 100\<bar> \<le>
   \<bar>fin_val (endX (pathCoords standardFlightNumbers Hyzer False DEFAULT_CONFIG)) - 100\<bar> \<and>
   \<bar>fin_val (endX (pathCoords standardFlightNumbers Anhyzer False DEFAULT_CONFIG)) - 100\<bar> \<le>
   \<bar>fin_val (endX (pathCoords standardFlightNumbers Flat False DEFAULT_CONFIG)) - 100\<bar> \<and>
   \<bar>fin_val (weightedFadeEffect standardFlightNumbers Anhyzer DEFAULT_CONFIG)\<bar> <
     \<bar>3219158939895595 / 2 ^ 46\<bar> \<and>
   \<bar>3219158939895595 / 2 ^ 46\<bar> <
     \<bar>fin_val (weightedFadeEffect standardFlightNumbers Hyzer DEFAULT_CONFIG)\<bar> \<and>
   weightedFadeEffect standardFlightNumbers Hyzer DEFAULT_CONFIG =
     js_mul (rawFadeEffect standardFlightNumbers DEFAULT_CONFIG) (lit (14 / 10))"
proof -
  note t = release_angle_ordering
    [of standardFlightNumbers DEFAULT_CONFIG "3219158939895595 / 2 ^ 46" False]
  have d: "is_double (startX DEFAULT_CONFIG)"
    by (simp add: stage_eval)
  have f: "finite_num (endX (pathCoords standardFlightNumbers Hyzer False DEFAULT_CONFIG))"
    "finite_num (endX (pathCoords standardFlightNumbers Flat False DEFAULT_CONFIG))"
    "finite_num (endX (pathCoords standardFlightNumbers Anhyzer False DEFAULT_CONFIG))"
    by (simp_all add: standard_endX)
  have r: "rawFadeEffect standardFlightNumbers DEFAULT_CONFIG =
      Fin (3219158939895595 / 2 ^ 46)"
    by (rule standard_fadeEffect)
  have l: "(1::rat) / 2 ^ 1021 \<le> \<bar>3219158939895595 / 2 ^ 46\<bar>"
    by simp
  have n: "\<bar>fin_val (startX DEFAULT_CONFIG)\<bar> \<le> 2 ^ 45 * \<bar>3219158939895595 / 2 ^ 46 :: rat\<bar>"
    by (simp add: DEFAULT_CONFIG_fields)
  have h: "finite_num (weightedFadeEffect standardFlightNumbers Hyzer DEFAULT_CONFIG)"
    by (simp add: standard_fadeEffect stage_eval)
  from t d f have 1:
    "\<bar>fin_val (endX (pathCoords standardFlightNumbers Flat False DEFAULT_CONFIG)) -
        fin_val (startX DEFAULT_CONFIG)\<bar> \<le>
     \<bar>fin_val (endX (pathCoords standardFlightNumbers Hyzer False DEFAULT_CONFIG)) -
        fin_val (startX DEFAULT_CONFIG)\<bar> \<and>
     \<bar>fin_val (endX (pathCoords standardFlightNumbers Anhyzer False DEFAULT_CONFIG)) -
        fin_val (startX DEFAULT_CONFIG)\<bar> \<le>
     \<bar>fin_val (endX (pathCoords standardFlightNumbers Flat False DEFAULT_CONFIG)) -
        fin_val (startX DEFAULT_CONFIG)\<bar>"
    by blast
  from t r l h have 2:
    "\<bar>fin_val (weightedFadeEffect standardFlightNumbers Anhyzer DEFAULT_CONFIG)\<bar> <
       \<bar>3219158939895595 / 2 ^ 46\<bar> \<and>
     \<bar>3219158939895595 / 2 ^ 46\<bar> <
       \<bar>fin_val (weightedFadeEffect standardFlightNumbers Hyzer DEFAULT_CONFIG)\<bar>"
    by blast
  from t have 3: "weightedFadeEffect standardFlightNumbers Hyzer DEFAULT_CONFIG =
      js_mul (rawFadeEffect standardFlightNumbers DEFAULT_CONFIG) (lit (14 / 10))"
    by (rule conjunct1)
  from t d r l n f have 4:
    "\<bar>fin_val (endX (pathCoords standardFlightNumbers Flat False DEFAULT_CONFIG)) -
        fin_val (startX DEFAULT_CONFIG)\<bar> <
     \<bar>fin_val (endX (pathCoords standardFlightNumbers Hyzer False DEFAULT_CONFIG)) -
        fin_val (startX DEFAULT_CONFIG)\<bar> \<and>
     \<bar>fin_val (endX (pathCoords standardFlightNumbers Anhyzer False DEFAULT_CONFIG)) -
        fin_val (startX DEFAULT_CONFIG)\<bar> <
     \<bar>fin_val (endX (pathCoords standardFlightNumbers Flat False DEFAULT_CONFIG)) -
        fin_val (startX DEFAULT_CONFIG)\<bar>"
    by blast
  from 1 2 3 4 show ?thesis
    unfolding DEFAULT_CONFIG_fields fin_val.simps by blast
qed

text \<open>
  C6 as stated fails: on a canvas whose startY is 10 the available height is -10 and
  pixelsPerFoot is negative, so raising speed from 1 to 2 lowers flightLength from -2.075
  to -2.775.
\<close>

theorem faster_disc_shorter_flight:
  "flightLength \<lparr>speed = Fin 1, glide = Fin 5, turn = Fin (- 1), fade = Fin 3\<rparr> \<lparr>width = Fin 200, height = Fin 300, startX = Fin 100, startY = Fin 10,
        maxDistance = Fin 400\<rparr> = Fin (- 2336242306698445 / 2 ^ 50) \<and>
   flightLength \<lparr>speed = js_add (Fin 1) (Fin 1), glide = Fin 5, turn = Fin (- 1), fade = Fin 3\<rparr> \<lparr>width = Fin 200, height = Fin 300, startX = Fin 100, startY = Fin 10,
        maxDistance = Fin 400\<rparr> = Fin (- 1562186120744141 / 2 ^ 49) \<and>
   js_lt (flightLength \<lparr>speed = js_add (Fin 1) (Fin 1), glide = Fin 5, turn = Fin (- 1), fade = Fin 3\<rparr> \<lparr>width = Fin 200, height = Fin 300, startX = Fin 100, startY = Fin 10,
        maxDistance = Fin 400\<rparr>) (flightLength \<lparr>speed = Fin 1, glide = Fin 5, turn = Fin (- 1), fade = Fin 3\<rparr> \<lparr>width = Fin 200, height = Fin 300, startX = Fin 100, startY = Fin 10,
        maxDistance = Fin 400\<rparr>)"
proof -
  let ?cfg = "\<lparr>width = Fin 200, height = Fin 300, startX = Fin 100, startY = Fin 10,
        maxDistance = Fin 400\<rparr>"
  have two: "js_add (Fin 1) (Fin 1) = Fin 2"
    by (simp add: js_eval)
  have p: "pixelsPerFoot ?cfg = Fin (- 3602879701896397 / 2 ^ 57)"
    by (simp add: pixelsPerFoot_def availableHeight_def stage_eval)
  have e1: "estimatedDistance \<lparr>speed = Fin 1, glide = Fin 5, turn = Fin (- 1), fade = Fin 3\<rparr> ?cfg = Fin 83"
    by (simp add: estimatedDistance_def baseDistance_def glideBonus_def stage_eval)
  have e2: "estimatedDistance \<lparr>speed = Fin 2, glide = Fin 5, turn = Fin (- 1), fade = Fin 3\<rparr> ?cfg = Fin 111"
    by (simp add: estimatedDistance_def baseDistance_def glideBonus_def stage_eval)
  have f1: "flightLength \<lparr>speed = Fin 1, glide = Fin 5, turn = Fin (- 1), fade = Fin 3\<rparr> ?cfg = Fin (- 2336242306698445 / 2 ^ 50)"
    by (simp add: flightLength_def e1 p js_eval)
  have f2: "flightLength \<lparr>speed = Fin 2, glide = Fin 5, turn = Fin (- 1), fade = Fin 3\<rparr> ?cfg = Fin (- 1562186120744141 / 2 ^ 49)"
    by (simp add: flightLength_def e2 p js_eval)
  show ?thesis
    unfolding two by (simp add: f1 f2)
qed

text \<open>
  C6, amended. Hold glide and the canvas config fixed and let the second speed be the
  first plus 1 (the first a binary64 number), or any speed that is not smaller. Then the
  second estimatedDistance is never less than the first; and the second flightLength is
  never less than the first whenever pixelsPerFoot is not negative (startY - 20 and
  maxDistance not of opposite signs).
\<close>

theorem faster_disc_not_shorter:
  assumes "(is_double (speed flightNumbers) \<and>
            speed flightNumbers' = js_add (speed flightNumbers) (Fin 1)) \<or>
           js_le (speed flightNumbers) (speed flightNumbers')"
    and "glide flightNumbers' = glide flightNumbers"
  shows "\<not> js_lt (estimatedDistance flightNumbers' config)
           (estimatedDistance flightNumbers config) \<and>
         (\<not> js_lt (pixelsPerFoot config) (Zero False) \<longrightarrow>
          \<not> js_lt (flightLength flightNumbers' config) (flightLength flightNumbers config))"
proof -
  let ?b = "glideBonus flightNumbers"
  let ?e = "estimatedDistance flightNumbers config"
  let ?e' = "estimatedDistance flightNumbers' config"
  let ?p = "pixelsPerFoot config"
  have bonus: "glideBonus flightNumbers' = ?b"
    by (simp add: glideBonus_def assms(2))
  have est: "js_le ?e ?e'" if n: "?e \<noteq> NaN" "?e' \<noteq> NaN"
  proof -
    have nn: "js_add (baseDistance flightNumbers) ?b \<noteq> NaN"
      "js_add (baseDistance flightNumbers') ?b \<noteq> NaN" "maxDistance config \<noteq> NaN"
      using n math_min_not_NaN unfolding estimatedDistance_def bonus by blast+
    have "speed flightNumbers \<noteq> NaN"
      using nn(1) by (auto simp: baseDistance_def)
    with assms(1) have "js_le (speed flightNumbers) (speed flightNumbers')"
      by (auto intro: js_le_add_one)
    then have "js_le (js_mul (speed flightNumbers) (Fin 28))
        (js_mul (speed flightNumbers') (Fin 28))"
      by (rule js_mul_mono_pos) simp
    then have base: "js_le (baseDistance flightNumbers) (baseDistance flightNumbers')"
      unfolding baseDistance_def lit_integers
      by (rule js_add_const_mono) (simp add: lit_integers [unfolded lit_def])
    have "is_double ?b"
      by (simp add: glideBonus_def)
    with base have "js_le (js_add (baseDistance flightNumbers) ?b)
        (js_add (baseDistance flightNumbers') ?b)"
      using nn(1,2) by (rule js_add_mono_left)
    then show ?thesis
      unfolding estimatedDistance_def bonus using nn(3) by (rule math_min_mono)
  qed
  have 1: "\<not> js_lt ?e' ?e"
  proof (cases "?e = NaN \<or> ?e' = NaN")
    case True
    then show ?thesis by (auto simp: js_lt_NaN)
  next
    case False
    with est show ?thesis by (simp add: js_le_iff)
  qed
  have 2: "\<not> js_lt (js_mul ?e' ?p) (js_mul ?e ?p)" if p: "\<not> js_lt ?p (Zero False)"
  proof (cases "js_mul ?e ?p = NaN \<or> js_mul ?e' ?p = NaN")
    case True
    then show ?thesis by (auto simp: js_lt_NaN)
  next
    case False
    then have n: "?e \<noteq> NaN" "?e' \<noteq> NaN" "?p \<noteq> NaN"
      by auto
    with p have "js_le (Zero False) ?p"
      by (simp add: js_le_iff)
    with est n have "js_le (js_mul ?e ?p) (js_mul ?e' ?p)"
      using False by (intro js_mul_mono_nonneg) simp_all
    with False show ?thesis by (simp add: js_le_iff)
  qed
  from 1 2 show ?thesis
    by (simp add: flightLength_def)
qed

theorem faster_disc_not_shorter_witness:
  "\<not> js_lt (estimatedDistance \<lparr>speed = js_add (Fin 1) (Fin 1), glide = Fin 5, turn = Fin (- 1), fade = Fin 3\<rparr> DEFAULT_CONFIG)
      (estimatedDistance \<lparr>speed = Fin 1, glide = Fin 5, turn = Fin (- 1), fade = Fin 3\<rparr> DEFAULT_CONFIG) \<and>
   \<not> js_lt (flightLength \<lparr>speed = js_add (Fin 1) (Fin 1), glide = Fin 5, turn = Fin (- 1), fade = Fin 3\<rparr> DEFAULT_CONFIG)
      (flightLength \<lparr>speed = Fin 1, glide = Fin 5, turn = Fin (- 1), fade = Fin 3\<rparr> DEFAULT_CONFIG)"
proof -
  have s: "(is_double (speed \<lparr>speed = Fin 1, glide = Fin 5, turn = Fin (- 1), fade = Fin 3\<rparr>) \<and>
      speed \<lparr>speed = js_add (Fin 1) (Fin 1), glide = Fin 5, turn = Fin (- 1), fade = Fin 3\<rparr> =
        js_add (speed \<lparr>speed = Fin 1, glide = Fin 5, turn = Fin (- 1), fade = Fin 3\<rparr>) (Fin 1)) \<or>
      js_le (speed \<lparr>speed = Fin 1, glide = Fin 5, turn = Fin (- 1), fade = Fin 3\<rparr>)
        (speed \<lparr>speed = js_add (Fin 1) (Fin 1), glide = Fin 5, turn = Fin (- 1), fade = Fin 3\<rparr>)"
    by (simp add: js_eval)
  have "\<not> js_lt (pixelsPerFoot DEFAULT_CONFIG) (Zero False)"
    unfolding standard_flightLength(2) by simp
  with faster_disc_not_shorter [OF s, of DEFAULT_CONFIG] show ?thesis
    by simp
qed

text \<open>
  C7. A call of calculateFlightPath whose flight numbers are an object of four numbers,
  with any of the four throw types and a config that is an object of numbers or omitted,
  throws nothing: it returns the FlightPaths of the typed function, whose three
  descriptors are the path strings of the computed coordinates. When startX and startY
  are binary64 numbers every computed coordinate is one: a finite number, an infinity or
  NaN. The two divisions are by maxDistance and by the constant 250; the first does not
  fail either: for a zero maxDistance pixelsPerFoot is an infinity or NaN, and the
  descriptors are returned all the same.
  So for speed -40 on a canvas with maxDistance 0 all three descriptors print infinite
  coordinates and a NaN cp2Y; and for the negative, out-of-range numbers speed -2,
  glide -3, turn 9, fade -7 on the default canvas the flat \<open>rhfh\<close> descriptor prints a
  curve that runs from (100, 280) down to (111.193, 306.65).
\<close>

theorem calculateFlightPath_total:
  "calculateFlightPath_untyped str (Object flightNumbers) throwType (Object config) =
     Inr (calculateFlightPath str flightNumbers throwType (Some config)) \<and>
   calculateFlightPath_untyped str (Object flightNumbers) throwType Undefined =
     Inr (calculateFlightPath str flightNumbers throwType None) \<and>
   calculateFlightPath str flightNumbers throwType (Some config) =
     \<lparr>hyzer = svgPath str (pathCoords flightNumbers Hyzer (shouldMirror throwType) config),
      flat = svgPath str (pathCoords flightNumbers Flat (shouldMirror throwType) config),
      anhyzer = svgPath str (pathCoords flightNumbers Anhyzer (shouldMirror throwType) config)\<rparr> \<and>
   (is_double (startX config) \<and> is_double (startY config) \<longrightarrow>
    is_double (cp1X (pathCoords flightNumbers releaseAngle (shouldMirror throwType) config)) \<and>
    is_double (cp1Y (pathCoords flightNumbers releaseAngle (shouldMirror throwType) config)) \<and>
    is_double (cp2X (pathCoords flightNumbers releaseAngle (shouldMirror throwType) config)) \<and>
    is_double (cp2Y (pathCoords flightNumbers releaseAngle (shouldMirror throwType) config)) \<and>
    is_double (endX (pathCoords flightNumbers releaseAngle (shouldMirror throwType) config)) \<and>
    is_double (endY (pathCoords flightNumbers releaseAngle (shouldMirror throwType) config))) \<and>
   pixelsPerFoot config = js_div (js_sub (startY config) (Fin 20)) (maxDistance config) \<and>
   effectScale flightNumbers config = js_div (flightLength flightNumbers config) (Fin 250) \<and>
   \<not> finite_num (pixelsPerFoot (config\<lparr>maxDistance := Zero s\<rparr>)) \<and>
   calculateFlightPath_untyped str
       (Object \<lparr>speed = Fin (- 40), glide = Fin 5, turn = Fin (- 1), fade = Fin 3\<rparr>) RHBH
       (Object \<lparr>width = Fin 200, height = Fin 300, startX = Fin 100, startY = Fin 280,
                maxDistance = Zero False\<rparr>) =
     Inr \<lparr>hyzer = svgPath str
            \<lparr>moveX = Fin 100, moveY = Fin 280, cp1X = Inf False, cp1Y = Inf False,
             cp2X = Inf False, cp2Y = NaN, endX = Inf False, endY = Inf False\<rparr>,
          flat = svgPath str
            \<lparr>moveX = Fin 100, moveY = Fin 280, cp1X = Inf False, cp1Y = Inf False,
             cp2X = Inf False, cp2Y = NaN, endX = Inf False, endY = Inf False\<rparr>,
          anhyzer = svgPath str
            \<lparr>moveX = Fin 100, moveY = Fin 280, cp1X = Inf False, cp1Y = Inf False,
             cp2X = Inf False, cp2Y = NaN, endX = Inf False, endY = Inf False\<rparr>\<rparr> \<and>
   flat (calculateFlightPath str
       \<lparr>speed = Fin (- 2), glide = Fin (- 3), turn = Fin 9, fade = Fin (- 7)\<rparr> RHFH None) =
     svgPath str
       \<lparr>moveX = Fin 100, moveY = Fin 280,
        cp1X = Fin (1927998037351727 / 2 ^ 44), cp1Y = Fin (5113344795669955 / 2 ^ 44),
        cp2X = Fin (237835140301901 / 2 ^ 41), cp2Y = Fin (5428399737102191 / 2 ^ 44),
        endX = Fin (7824511771346993 / 2 ^ 46), endY = Fin (2697321925260083 / 2 ^ 43)\<rparr>"
proof -
  have u: "calculateFlightPath_untyped str (Object fn) t (Object c) =
      Inr (calculateFlightPath str fn t (Some c))"
    "calculateFlightPath_untyped str (Object fn) t Undefined =
      Inr (calculateFlightPath str fn t None)" for fn t c
    by (simp_all add: calculateFlightPath_untyped_def generatePath_untyped_def
        calculateFlightPath_def Let_def)
  have c: "calculateFlightPath str fn t (Some c) =
     \<lparr>hyzer = svgPath str (pathCoords fn Hyzer (shouldMirror t) c),
      flat = svgPath str (pathCoords fn Flat (shouldMirror t) c),
      anhyzer = svgPath str (pathCoords fn Anhyzer (shouldMirror t) c)\<rparr>" for fn t c
    by (simp add: calculateFlightPath_def generatePath_def)
  have d: "\<not> finite_num (js_div a (Zero s))" for a
    by (cases a) simp_all
  have m: "shouldMirror RHBH = False" "shouldMirror RHFH = True"
    by (simp_all add: shouldMirror_def)
  show ?thesis
    unfolding u c
    by (simp add: d pixelsPerFoot_def availableHeight_def effectScale_def lit_integers
        calculateFlightPath_coords m zero_maxDistance_coords negative_numbers_coords
        computed_coords_double)
qed

theorem calculateFlightPath_total_witness:
  "\<forall>str. calculateFlightPath_untyped str
       (Object \<lparr>speed = Fin (- 2), glide = Fin (- 3), turn = Fin 9, fade = Fin (- 7)\<rparr>) RHFH
       (Object DEFAULT_CONFIG) =
     Inr (calculateFlightPath str
       \<lparr>speed = Fin (- 2), glide = Fin (- 3), turn = Fin 9, fade = Fin (- 7)\<rparr> RHFH
       (Some DEFAULT_CONFIG)) \<and>
     is_double (cp1X (pathCoords
       \<lparr>speed = Fin (- 2), glide = Fin (- 3), turn = Fin 9, fade = Fin (- 7)\<rparr> Flat
       (shouldMirror RHFH) DEFAULT_CONFIG)) \<and>
     is_double (cp2Y (pathCoords
       \<lparr>speed = Fin (- 2), glide = Fin (- 3), turn = Fin 9, fade = Fin (- 7)\<rparr> Flat
       (shouldMirror RHFH) DEFAULT_CONFIG)) \<and>
     is_double (endX (pathCoords
       \<lparr>speed = Fin (- 2), glide = Fin (- 3), turn = Fin 9, fade = Fin (- 7)\<rparr> Flat
       (shouldMirror RHFH) DEFAULT_CONFIG)) \<and>
     is_double (endY (pathCoords
       \<lparr>speed = Fin (- 2), glide = Fin (- 3), turn = Fin 9, fade = Fin (- 7)\<rparr> Flat
       (shouldMirror RHFH) DEFAULT_CONFIG))"
proof -
  have d: "is_double (startX DEFAULT_CONFIG) \<and> is_double (startY DEFAULT_CONFIG)"
    by (simp add: stage_eval)
  have "calculateFlightPath_untyped str
       (Object \<lparr>speed = Fin (- 2), glide = Fin (- 3), turn = Fin 9, fade = Fin (- 7)\<rparr>) RHFH
       (Object DEFAULT_CONFIG) =
     Inr (calculateFlightPath str
       \<lparr>speed = Fin (- 2), glide = Fin (- 3), turn = Fin 9, fade = Fin (- 7)\<rparr> RHFH
       (Some DEFAULT_CONFIG)) \<and>
     is_double (cp1X (pathCoords
       \<lparr>speed = Fin (- 2), glide = Fin (- 3), turn = Fin 9, fade = Fin (- 7)\<rparr> Flat
       (shouldMirror RHFH) DEFAULT_CONFIG)) \<and>
     is_double (cp2Y (pathCoords
       \<lparr>speed = Fin (- 2), glide = Fin (- 3), turn = Fin 9, fade = Fin (- 7)\<rparr> Flat
       (shouldMirror RHFH) DEFAULT_CONFIG)) \<and>
     is_double (endX (pathCoords
       \<lparr>speed = Fin (- 2), glide = Fin (- 3), turn = Fin 9, fade = Fin (- 7)\<rparr> Flat
       (shouldMirror RHFH) DEFAULT_CONFIG)) \<and>
     is_double (endY (pathCoords
       \<lparr>speed = Fin (- 2), glide = Fin (- 3), turn = Fin 9, fade = Fin (- 7)\<rparr> Flat
       (shouldMirror RHFH) DEFAULT_CONFIG))" for str
    using d calculateFlightPath_total
      [where flightNumbers =
          "\<lparr>speed = Fin (- 2), glide = Fin (- 3), turn = Fin 9, fade = Fin (- 7)\<rparr>"
        and throwType = RHFH and config = DEFAULT_CONFIG and releaseAngle = Flat
        and str = str]
    by blast
  then show ?thesis by blast
qed




text \<open>
  C9. A call without the config argument returns the FlightPaths of the call with the
  explicit config of width 200, height 300, startX 100, startY 280 and maxDistance 400.
\<close>

theorem omitted_config_is_default:
  "calculateFlightPath str flightNumbers throwType None =
   calculateFlightPath str flightNumbers throwType
     (Some \<lparr>width = Fin 200, height = Fin 300, startX = Fin 100, startY = Fin 280,
            maxDistance = Fin 400\<rparr>)"
  by (simp add: calculateFlightPath_def DEFAULT_CONFIG_def lit_integers)

text \<open>
  C10. The output does not depend on the width and height of the canvas config: two
  configs with the same startX, startY and maxDistance give the same FlightPaths.
\<close>

theorem width_height_unused:
  assumes "startX c1 = startX c2" and "startY c1 = startY c2"
    and "maxDistance c1 = maxDistance c2"
  shows "calculateFlightPath str flightNumbers throwType (Some c1) =
         calculateFlightPath str flightNumbers throwType (Some c2)"
proof -
  have "pathCoords flightNumbers releaseAngle mirror c1 =
        pathCoords flightNumbers releaseAngle mirror c2" for releaseAngle mirror
    using assms by (cases releaseAngle) (simp_all add: path_defs)
  then show ?thesis
    by (simp add: calculateFlightPath_def generatePath_def)
qed

theorem width_height_unused_witness:
  "\<forall>str. calculateFlightPath str
       \<lparr>speed = Fin 12, glide = Fin 5, turn = Fin (- 1), fade = Fin 3\<rparr> RHFH
       (Some \<lparr>width = Fin 200, height = Fin 300, startX = Fin 100, startY = Fin 280,
              maxDistance = Fin 400\<rparr>) =
     calculateFlightPath str
       \<lparr>speed = Fin 12, glide = Fin 5, turn = Fin (- 1), fade = Fin 3\<rparr> RHFH
       (Some \<lparr>width = Fin 1, height = NaN, startX = Fin 100, startY = Fin 280,
              maxDistance = Fin 400\<rparr>)"
  using width_height_unused
    [of "\<lparr>width = Fin 200, height = Fin 300, startX = Fin 100, startY = Fin 280,
          maxDistance = Fin 400\<rparr>"
        "\<lparr>width = Fin 1, height = NaN, startX = Fin 100, startY = Fin 280,
          maxDistance = Fin 400\<rparr>"]
  by simp

end
